theory Spec2Isabelle
  imports Main
begin

section \<open>Python values and JSON text\<close>

text \<open>
  Session data and order payloads are Python dictionaries. A value is one of the
  types the JSON encoder knows (\<open>None\<close>, \<open>bool\<close>, \<open>int\<close>, \<open>str\<close>, \<open>list\<close>,
  \<open>tuple\<close>, \<open>dict\<close> with string keys) or any other object (\<open>PObj s\<close>, where \<open>s\<close> is
  what \<open>str\<close> returns for it, e.g. a \<open>datetime\<close>). Floats are left out.
  A dictionary is the list of its items in insertion order.
\<close>

datatype pyval =
    PNone
  | PBool bool
  | PInt int
  | PStr string
  | PList "pyval list"
  | PTuple "pyval list"
  | PDict "(string \<times> pyval) list"
  | PObj string

datatype json =
    JNull
  | JBool bool
  | JNum int
  | JStr string
  | JArr "json list"
  | JObj "(string \<times> json) list"

text \<open>
  A \<open>TEXT\<close> cell is represented by what \<open>json.loads\<close> makes of it: the document
  it parses to, or text that raises \<open>JSONDecodeError\<close>.
\<close>

datatype json_text = JsonText json | NotJson string

text \<open>\<open>json.dumps(v, ensure_ascii=False, default=str)\<close>: tuples are written as
  arrays, and an object the encoder does not know is written as the string \<open>str(obj)\<close>.\<close>

primrec to_json :: "pyval \<Rightarrow> json" where
  "to_json PNone = JNull"
| "to_json (PBool b) = JBool b"
| "to_json (PInt i) = JNum i"
| "to_json (PStr s) = JStr s"
| "to_json (PList xs) = JArr (map to_json xs)"
| "to_json (PTuple xs) = JArr (map to_json xs)"
| "to_json (PDict kvs) = JObj (map (map_prod id to_json) kvs)"
| "to_json (PObj s) = JStr s"

definition json_dumps :: "pyval \<Rightarrow> json_text" where
  "json_dumps v = JsonText (to_json v)"

text \<open>\<open>d[k] = v\<close> on a dictionary: an existing key keeps its place.\<close>

fun dict_set :: "string \<Rightarrow> 'v \<Rightarrow> (string \<times> 'v) list \<Rightarrow> (string \<times> 'v) list" where
  "dict_set k v [] = [(k, v)]"
| "dict_set k v ((k', v') # d) = (if k = k' then (k, v) # d else (k', v') # dict_set k v d)"

definition dict_of_pairs :: "(string \<times> 'v) list \<Rightarrow> (string \<times> 'v) list" where
  "dict_of_pairs kvs = foldl (\<lambda>d kv. dict_set (fst kv) (snd kv) d) [] kvs"

text \<open>\<open>json.loads\<close> on a document: arrays become lists, objects become dictionaries
  (a repeated key keeps its last value).\<close>

primrec of_json :: "json \<Rightarrow> pyval" where
  "of_json JNull = PNone"
| "of_json (JBool b) = PBool b"
| "of_json (JNum i) = PInt i"
| "of_json (JStr s) = PStr s"
| "of_json (JArr xs) = PList (map of_json xs)"
| "of_json (JObj kvs) = PDict (dict_of_pairs (map (map_prod id of_json) kvs))"

text \<open>\<open>None\<close> stands for \<open>JSONDecodeError\<close>.\<close>

fun json_loads :: "json_text \<Rightarrow> pyval option" where
  "json_loads (JsonText j) = Some (of_json j)"
| "json_loads (NotJson s) = None"


section \<open>The order queue (table \<open>order_queue\<close>)\<close>

type_synonym timestamp = nat

record order_row =
  q_id :: int
  q_user_id :: int
  q_order_data :: json_text
  q_status :: string
  q_attempt_count :: int
  q_last_attempt :: "timestamp option"
  q_error_message :: "string option"
  q_created_at :: timestamp
  q_processed_at :: "timestamp option"

text \<open>The table is the list of its rows in rowid order.\<close>

type_synonym order_queue = "order_row list"

definition MAX_ATTEMPTS :: int where
  "MAX_ATTEMPTS = 5"

text \<open>The \<open>WHERE\<close> clause of \<open>get_pending_orders\<close>.\<close>

definition eligible :: "order_row \<Rightarrow> bool" where
  "eligible r \<longleftrightarrow>
     q_status r = ''pending'' \<or> (q_status r = ''failed'' \<and> q_attempt_count r < MAX_ATTEMPTS)"

text \<open>SQLite's \<open>LIMIT n\<close>: a negative \<open>n\<close> means no upper bound.\<close>

definition sql_limit :: "int \<Rightarrow> 'a list \<Rightarrow> 'a list" where
  "sql_limit n xs = (if n < 0 then xs else take (nat n) xs)"

text \<open>The \<open>SELECT\<close> of \<open>get_pending_orders\<close>: filter, order by \<open>created_at\<close>, limit.
  Rows with the same \<open>created_at\<close> stay in rowid order here; SQLite leaves their order
  open.\<close>

definition select_pending :: "int \<Rightarrow> order_queue \<Rightarrow> order_row list" where
  "select_pending limit q = sql_limit limit (sort_key q_created_at (filter eligible q))"

record claimed =
  c_id :: int
  c_user_id :: int
  c_order_data :: pyval
  c_attempt_count :: int

text \<open>The loop over the fetched rows: a row whose payload does not parse is logged
  and skipped.\<close>

fun load_rows :: "order_row list \<Rightarrow> claimed list" where
  "load_rows [] = []"
| "load_rows (row # rows) =
     (case json_loads (q_order_data row) of
        Some order_data \<Rightarrow>
          \<lparr>c_id = q_id row, c_user_id = q_user_id row, c_order_data = order_data,
           c_attempt_count = q_attempt_count row\<rparr> # load_rows rows
      | None \<Rightarrow> load_rows rows)"

text \<open>The table is always readable here; when the database raises, the source logs
  that and returns the empty list.\<close>

definition get_pending_orders :: "int \<Rightarrow> order_queue \<Rightarrow> claimed list" where
  "get_pending_orders limit q = load_rows (select_pending limit q)"

text \<open>The fetched rows behind the returned entries: those whose payload parses.\<close>

definition parses :: "order_row \<Rightarrow> bool" where
  "parses r \<longleftrightarrow> json_loads (q_order_data r) \<noteq> None"

definition claimed_rows :: "int \<Rightarrow> order_queue \<Rightarrow> order_row list" where
  "claimed_rows limit q = filter parses (select_pending limit q)"

text \<open>The three \<open>UPDATE\<close> statements of \<open>update_order_status\<close>, on one row.\<close>

definition set_status :: "string \<Rightarrow> string option \<Rightarrow> timestamp \<Rightarrow> order_row \<Rightarrow> order_row" where
  "set_status status error_message now r =
     (if status = ''completed'' then
        r\<lparr>q_status := status, q_processed_at := Some now, q_last_attempt := Some now\<rparr>
      else if status = ''failed'' then
        r\<lparr>q_status := status, q_error_message := error_message,
          q_attempt_count := q_attempt_count r + 1, q_last_attempt := Some now\<rparr>
      else
        r\<lparr>q_status := status, q_last_attempt := Some now\<rparr>)"

text \<open>\<open>update_order_status\<close> returns the table and whether \<open>rowcount > 0\<close>.\<close>

definition update_order_status ::
  "int \<Rightarrow> string \<Rightarrow> string option \<Rightarrow> timestamp \<Rightarrow> order_queue \<Rightarrow> order_queue \<times> bool" where
  "update_order_status order_id status error_message now q =
     (map (\<lambda>r. if q_id r = order_id then set_status status error_message now r else r) q,
      list_ex (\<lambda>r. q_id r = order_id) q)"

text \<open>\<open>AUTOINCREMENT\<close>: the new rowid is one more than the largest one.\<close>

definition next_rowid :: "order_queue \<Rightarrow> int" where
  "next_rowid q = fold max (map q_id q) 0 + 1"

text \<open>\<open>add_order_to_queue\<close>: \<open>db_ok\<close> tells whether the body of the \<open>try\<close> (the
  \<open>INSERT\<close> and the commit) goes through; when it raises, the function logs and returns
  \<open>False\<close>.\<close>

definition add_order_to_queue ::
  "bool \<Rightarrow> int \<Rightarrow> (string \<times> pyval) list \<Rightarrow> timestamp \<Rightarrow> order_queue \<Rightarrow> order_queue \<times> bool" where
  "add_order_to_queue db_ok user_id order_data now q =
     (if db_ok then
        (q @ [\<lparr>q_id = next_rowid q, q_user_id = user_id,
               q_order_data = json_dumps (PDict order_data), q_status = ''pending'',
               q_attempt_count = 0, q_last_attempt = None, q_error_message = None,
               q_created_at = now, q_processed_at = None\<rparr>], True)
      else (q, False))"

section \<open>The queue worker (\<open>process_order_queue\<close>)\<close>

definition ADMINS :: "int list" where
  "ADMINS = [122086799, 5183727015]"

text \<open>What the worker does to the outside: it enters the write block for an order, and
  it sends the final-error message to an administrator.\<close>

datatype event =
    Attempt int
  | AdminAlert (alert_admin: int) (alert_order: int) (alert_user: int)
      (alert_article: pyval) (alert_shop: pyval) (alert_error: string)

text \<open>The order an event is about.\<close>

fun event_order :: "event \<Rightarrow> int" where
  "event_order (Attempt order_id) = order_id"
| "event_order (AdminAlert admin_id order_id user_id article shop error_msg) = order_id"

text \<open>\<open>order_data.get(key, default)\<close>: \<open>None\<close> stands for the \<open>AttributeError\<close> of a
  value that is not a dictionary.\<close>

fun py_get :: "pyval \<Rightarrow> string \<Rightarrow> pyval \<Rightarrow> pyval option" where
  "py_get (PDict d) key dflt = Some (case map_of d key of Some v \<Rightarrow> v | None \<Rightarrow> dflt)"
| "py_get _ key dflt = None"

text \<open>The loop over \<open>ADMINS\<close> after the last attempt. Building the message raises inside
  the \<open>try\<close> when the payload is not a dictionary; that is logged and nothing is sent.\<close>

definition final_alerts :: "int \<Rightarrow> int \<Rightarrow> pyval \<Rightarrow> string \<Rightarrow> event list" where
  "final_alerts order_id user_id order_data error_msg =
     (case (py_get order_data ''article'' (PStr ''N/A''),
            py_get order_data ''selected_shop'' (PStr ''N/A'')) of
        (Some article, Some shop) \<Rightarrow>
          map (\<lambda>admin_id. AdminAlert admin_id order_id user_id article shop (take 300 error_msg))
            ADMINS
      | _ \<Rightarrow> [])"

text \<open>The write into the external sheet, with the reading of the payload fields that
  precedes it, is the environment's: \<open>None\<close> when the block returns, \<open>Some e\<close> when it
  raises an exception whose text is \<open>e\<close>.\<close>

type_synonym ledger = "timestamp \<Rightarrow> claimed \<Rightarrow> string option"

record worker =
  w_queue :: order_queue
  w_clock :: timestamp
  w_events :: "event list"

definition max_retries :: int where
  "max_retries = 5"

text \<open>The body of the \<open>for order_item in pending_orders\<close> loop.\<close>

definition process_item :: "ledger \<Rightarrow> worker \<Rightarrow> claimed \<Rightarrow> worker" where
  "process_item write w order_item =
     (let order_id = c_id order_item;
          user_id = c_user_id order_item;
          order_data = c_order_data order_item;
          attempt_count = c_attempt_count order_item;
          now = w_clock w;
          q1 = fst (update_order_status order_id ''processing'' None now (w_queue w))
      in case write now order_item of
           None \<Rightarrow>
             w\<lparr>w_queue := fst (update_order_status order_id ''completed'' None now q1),
               w_clock := now + 1,
               w_events := w_events w @ [Attempt order_id]\<rparr>
         | Some error_msg \<Rightarrow>
             w\<lparr>w_queue := fst (update_order_status order_id ''failed'' (Some error_msg) now q1),
               w_clock := now + 1,
               w_events := w_events w @ [Attempt order_id] @
                 (if attempt_count + 1 \<ge> max_retries
                  then final_alerts order_id user_id order_data error_msg else [])\<rparr>)"

text \<open>One iteration of the \<open>while worker_running\<close> loop: claim up to five orders; sleep
  when there are none, else process them one after the other.\<close>

definition worker_cycle :: "ledger \<Rightarrow> worker \<Rightarrow> worker" where
  "worker_cycle write w =
     (let pending_orders = get_pending_orders 5 (w_queue w)
      in if pending_orders = [] then w\<lparr>w_clock := w_clock w + 120\<rparr>
         else (let w' = foldl (process_item write) w pending_orders
               in w'\<lparr>w_clock := w_clock w' + 1\<rparr>))"

text \<open>The loop runs as long as the process lives; \<open>n\<close> is the number of iterations made.\<close>

fun process_order_queue :: "nat \<Rightarrow> ledger \<Rightarrow> worker \<Rightarrow> worker" where
  "process_order_queue 0 write w = w"
| "process_order_queue (Suc n) write w = process_order_queue n write (worker_cycle write w)"

section \<open>The approval requests (table \<open>approval_requests\<close>)\<close>

record approval_request =
  r_request_id :: string
  r_user_id :: int
  r_manager_id :: int
  r_department :: string
  r_article :: pyval
  r_shop :: pyval
  r_product_name :: pyval
  r_product_supplier :: pyval
  r_status :: string
  r_user_data :: json_text
  r_manager_message_id :: "int option"
  r_reject_comment :: "string option"
  r_created_at :: timestamp
  r_updated_at :: timestamp

text \<open>\<open>request_id\<close> is the primary key: the table is a map from it.\<close>

type_synonym request_store = "string \<rightharpoonup> approval_request"

text \<open>\<open>create_approval_request\<close>: the session data is serialised and the row is
  inserted with the column default \<open>'pending'\<close>. An \<open>INSERT\<close> with a key that is
  already there raises; the function logs that and returns \<open>False\<close>.\<close>

definition create_approval_request ::
  "string \<Rightarrow> int \<Rightarrow> int \<Rightarrow> string \<Rightarrow> pyval \<Rightarrow> pyval \<Rightarrow> pyval \<Rightarrow> pyval \<Rightarrow>
   (string \<times> pyval) list \<Rightarrow> timestamp \<Rightarrow> request_store \<Rightarrow> request_store \<times> bool" where
  "create_approval_request request_id user_id manager_id department article shop
     product_name product_supplier user_data now store =
     (let serialized_data = json_dumps (PDict user_data)
      in case store request_id of
           Some _ \<Rightarrow> (store, False)
         | None \<Rightarrow>
             (store(request_id \<mapsto>
                \<lparr>r_request_id = request_id, r_user_id = user_id, r_manager_id = manager_id,
                 r_department = department, r_article = article, r_shop = shop,
                 r_product_name = product_name, r_product_supplier = product_supplier,
                 r_status = ''pending'', r_user_data = serialized_data,
                 r_manager_message_id = None, r_reject_comment = None,
                 r_created_at = now, r_updated_at = now\<rparr>), True))"

text \<open>\<open>update_approval_request_status\<close>: the \<open>UPDATE\<close> always writes \<open>status\<close> and
  \<open>updated_at\<close>, and the two optional columns when they are given. It has no condition
  on the status the row has.\<close>

definition update_approval_request_status ::
  "string \<Rightarrow> string \<Rightarrow> int option \<Rightarrow> string option \<Rightarrow> timestamp \<Rightarrow> request_store \<Rightarrow>
   request_store \<times> bool" where
  "update_approval_request_status request_id status manager_message_id reject_comment now store =
     (case store request_id of
        None \<Rightarrow> (store, False)
      | Some r \<Rightarrow>
          (let r1 = r\<lparr>r_status := status, r_updated_at := now\<rparr>;
               r2 = (case manager_message_id of
                       None \<Rightarrow> r1 | Some m \<Rightarrow> r1\<lparr>r_manager_message_id := Some m\<rparr>);
               r3 = (case reject_comment of
                       None \<Rightarrow> r2 | Some c \<Rightarrow> r2\<lparr>r_reject_comment := Some c\<rparr>)
           in (store(request_id \<mapsto> r3), True)))"

text \<open>\<open>get_approval_request_by_id\<close>: the row with \<open>user_data\<close> parsed; text that does
  not parse gives the empty dictionary.\<close>

definition get_approval_request_by_id ::
  "string \<Rightarrow> request_store \<Rightarrow> (approval_request \<times> pyval) option" where
  "get_approval_request_by_id request_id store =
     (case store request_id of
        None \<Rightarrow> None
      | Some row \<Rightarrow>
          Some (row, case json_loads (r_user_data row) of Some d \<Rightarrow> d | None \<Rightarrow> PDict []))"

definition delete_approval_request :: "string \<Rightarrow> request_store \<Rightarrow> request_store \<times> bool" where
  "delete_approval_request request_id store =
     (store(request_id := None), store request_id \<noteq> None)"

section \<open>Sessions, messages and the state of the bot\<close>

text \<open>The conversation state of a user: the current state name and the data dictionary.\<close>

record fsm_ctx =
  fsm_state :: "string option"
  fsm_data :: "(string \<times> pyval) list"

datatype manager_name = FullName string | UnknownManager | DepartmentManager string

text \<open>The messages of the handlers, by kind and with the values they carry.\<close>

datatype notice =
    RequestNotFound
  | NotYourRequest
  | AlreadyDecided string
  | EditStatusAlreadyChanged bool
  | OrderApproved string pyval pyval pyval
  | ApprovedUserNotified
  | ApprovedNotNotified
  | StatusUpdateError
  | EditApproved
  | EditAskRejectReason
  | EnterRejectReason
  | RejectRequestError
  | CommentEmpty
  | StateError
  | AlreadyDecidedText bool
  | OrderRejected manager_name pyval pyval pyval string
  | RejectDone
  | RejectDoneNotNotified
  | RejectDbError
  | NotFoundOrProcessed
  | ManagerRejected
  | NotYetApproved
  | DataRestored
  | RestoreError
  | MessageDeleted
  | ResumePrompt pyval pyval pyval pyval
  | QuantityNotPositive
  | QuantityBadFormat
  | ProductInfoUnavailable
  | NoManager
  | CreateRequestError
  | ApprovalNeeded string int pyval pyval pyval int pyval string
  | ManagerSendFailed
  | OrderPaused string manager_name
  | AskOrderReason
  | MissingFields "string list"
  | OrderSent
  | EnqueueFailed int pyval pyval

record bot =
  requests :: request_store
  fsm :: "int \<Rightarrow> fsm_ctx"
  outbox :: "(int \<times> notice) list"
  queue :: order_queue
  critical_log :: "notice list"

datatype py_error = AttributeError | KeyError | TypeError | ValueError | TelegramError

definition reply :: "int \<Rightarrow> notice \<Rightarrow> bot \<Rightarrow> bot" where
  "reply chat_id n s = s\<lparr>outbox := outbox s @ [(chat_id, n)]\<rparr>"

definition state_clear :: "int \<Rightarrow> bot \<Rightarrow> bot" where
  "state_clear user_id s = s\<lparr>fsm := (fsm s)(user_id := \<lparr>fsm_state = None, fsm_data = []\<rparr>)\<rparr>"

definition state_set_state :: "int \<Rightarrow> string \<Rightarrow> bot \<Rightarrow> bot" where
  "state_set_state user_id st s =
     s\<lparr>fsm := (fsm s)(user_id := (fsm s user_id)\<lparr>fsm_state := Some st\<rparr>)\<rparr>"

definition state_set_data :: "int \<Rightarrow> (string \<times> pyval) list \<Rightarrow> bot \<Rightarrow> bot" where
  "state_set_data user_id d s =
     s\<lparr>fsm := (fsm s)(user_id := (fsm s user_id)\<lparr>fsm_data := d\<rparr>)\<rparr>"

definition state_update_data :: "int \<Rightarrow> (string \<times> pyval) list \<Rightarrow> bot \<Rightarrow> bot" where
  "state_update_data user_id kvs s =
     state_set_data user_id
       (foldl (\<lambda>d kv. dict_set (fst kv) (snd kv) d) (fsm_data (fsm s user_id)) kvs) s"

definition state_get_data :: "int \<Rightarrow> bot \<Rightarrow> (string \<times> pyval) list" where
  "state_get_data user_id s = fsm_data (fsm s user_id)"

text \<open>\<open>str.strip()\<close> on ASCII text.\<close>

definition is_space :: "char \<Rightarrow> bool" where
  "is_space c \<longleftrightarrow>
     c \<in> {CHR 0x09, CHR 0x0A, CHR 0x0B, CHR 0x0C, CHR 0x0D,
          CHR 0x1C, CHR 0x1D, CHR 0x1E, CHR 0x1F, CHR 0x20}"

definition strip :: "string \<Rightarrow> string" where
  "strip s = rev (dropWhile is_space (rev (dropWhile is_space s)))"

text \<open>The truth value of a Python value in \<open>if not x\<close>.\<close>

fun truthy :: "pyval \<Rightarrow> bool" where
  "truthy PNone = False"
| "truthy (PBool b) = b"
| "truthy (PInt i) = (i \<noteq> 0)"
| "truthy (PStr s) = (s \<noteq> [])"
| "truthy (PList xs) = (xs \<noteq> [])"
| "truthy (PTuple xs) = (xs \<noteq> [])"
| "truthy (PDict d) = (d \<noteq> [])"
| "truthy (PObj s) = True"

text \<open>The approver directory (\<open>get_manager_id_by_department\<close> reads it from a cache).\<close>

record manager_info =
  m_id :: int
  m_first_name :: string
  m_last_name :: string
  m_department :: string

type_synonym directory = "string \<Rightarrow> manager_info option"

section \<open>The resume controller\<close>

text \<open>
  A handler takes the state of the bot and returns the new one. The outcome of a call
  to the messaging service that the source guards with \<open>try\<close> is a parameter of the
  handler; the other calls to it (\<open>callback.answer\<close>, \<open>message.answer\<close>) are taken to
  return, but for the error reply of the gate, which stands between a failed
  notification and the deletion of the request.
\<close>

definition awaiting_reject_comment :: string where
  "awaiting_reject_comment = ''ManagerApprovalStates:awaiting_reject_comment''"

definition order_reason_input :: string where
  "order_reason_input = ''OrderStates:order_reason_input''"

text \<open>\<open>handle_manager_approval\<close>, for the callback data \<open>action:request_id\<close> sent by
  \<open>manager_id\<close>. \<open>user_send_ok\<close>: the message to the requester is sent; \<open>edit_ok\<close>: the
  approver's message can be edited.\<close>

definition handle_manager_approval ::
  "string \<Rightarrow> string \<Rightarrow> int \<Rightarrow> bool \<Rightarrow> bool \<Rightarrow> timestamp \<Rightarrow> bot \<Rightarrow> bot" where
  "handle_manager_approval action request_id manager_id user_send_ok edit_ok now s =
     (case get_approval_request_by_id request_id (requests s) of
        None \<Rightarrow> reply manager_id RequestNotFound s
      | Some (request_data, user_data) \<Rightarrow>
          if r_manager_id request_data \<noteq> manager_id then reply manager_id NotYourRequest s
          else if r_status request_data \<noteq> ''pending'' then
            (let s1 = reply manager_id (AlreadyDecided (r_status request_data)) s
             in if edit_ok
                then reply manager_id
                       (EditStatusAlreadyChanged (r_status request_data = ''approved'')) s1
                else s1)
          else if action = ''approve'' then
            (case update_approval_request_status request_id ''approved'' None None now
                    (requests s) of
               (store, success) \<Rightarrow>
                 if success then
                   (let s1 = s\<lparr>requests := store\<rparr>
                    in if user_send_ok then
                         (let s2 = reply (r_user_id request_data)
                                     (OrderApproved request_id (r_article request_data)
                                        (r_product_name request_data) (r_shop request_data)) s1;
                              s3 = reply manager_id ApprovedUserNotified s2
                          in if edit_ok then reply manager_id EditApproved s3 else s3)
                       else reply manager_id ApprovedNotNotified s1)
                 else reply manager_id StatusUpdateError (s\<lparr>requests := store\<rparr>))
          else if action = ''start_reject'' \<or> action = ''request_reject'' then
            (if edit_ok then
               (let s1 = reply manager_id EditAskRejectReason s;
                    s2 = state_set_state manager_id awaiting_reject_comment s1;
                    s3 = state_update_data manager_id
                           [(''current_reject_request_id'', PStr request_id)] s2;
                    s4 = reply manager_id EnterRejectReason s3
                in reply manager_id StatusUpdateError s4)
             else reply manager_id RejectRequestError s)
          else s)"

definition rejecting_manager_name :: "directory \<Rightarrow> string \<Rightarrow> manager_name" where
  "rejecting_manager_name directory department =
     (case directory department of
        Some info \<Rightarrow>
          (let name = strip (m_first_name info @ '' '' @ m_last_name info)
           in if name = [] then UnknownManager else FullName name)
      | None \<Rightarrow> DepartmentManager department)"

text \<open>\<open>handle_manager_reject_comment\<close>, for a message of \<open>manager_id\<close> in the state
  \<open>awaiting_reject_comment\<close>. \<open>text\<close> is \<open>message.text\<close> (\<open>None\<close> for a message
  without text, on which \<open>.strip()\<close> raises). A value under
  \<open>current_reject_request_id\<close> that is not a string matches no request.\<close>

definition handle_manager_reject_comment ::
  "int \<Rightarrow> string option \<Rightarrow> bool \<Rightarrow> directory \<Rightarrow> timestamp \<Rightarrow> bot \<Rightarrow> py_error + bot" where
  "handle_manager_reject_comment manager_id text user_send_ok directory now s =
     (case text of
        None \<Rightarrow> Inl AttributeError
      | Some t \<Rightarrow>
          (let reject_comment = strip t
           in if reject_comment = [] then Inr (reply manager_id CommentEmpty s)
              else
                (case map_of (state_get_data manager_id s) ''current_reject_request_id'' of
                   None \<Rightarrow> Inr (state_clear manager_id (reply manager_id StateError s))
                 | Some request_id \<Rightarrow>
                     if \<not> truthy request_id
                     then Inr (state_clear manager_id (reply manager_id StateError s))
                     else
                       (case (case request_id of
                                PStr rid \<Rightarrow>
                                  map_option (Pair rid)
                                    (get_approval_request_by_id rid (requests s))
                              | _ \<Rightarrow> None) of
                          None \<Rightarrow> Inr (state_clear manager_id (reply manager_id RequestNotFound s))
                        | Some (rid, request_data, user_data) \<Rightarrow>
                            if r_manager_id request_data \<noteq> manager_id
                            then Inr (state_clear manager_id (reply manager_id NotYourRequest s))
                            else if r_status request_data \<noteq> ''pending''
                            then Inr (state_clear manager_id
                                   (reply manager_id
                                      (AlreadyDecidedText (r_status request_data = ''approved'')) s))
                            else
                              (case update_approval_request_status rid ''rejected'' None
                                      (Some reject_comment) now (requests s) of
                                 (store, success) \<Rightarrow>
                                   (let s1 = s\<lparr>requests := store\<rparr>;
                                        s2 =
                                          (if success then
                                             (if user_send_ok then
                                                reply manager_id RejectDone
                                                  (reply (r_user_id request_data)
                                                     (OrderRejected
                                                        (rejecting_manager_name directory
                                                           (r_department request_data))
                                                        (r_article request_data)
                                                        (r_shop request_data)
                                                        (r_product_name request_data)
                                                        reject_comment) s1)
                                              else reply manager_id RejectDoneNotNotified s1)
                                           else reply manager_id RejectDbError s1)
                                    in Inr (state_clear manager_id s2)))))))"

text \<open>\<open>handle_continue_order\<close>, for the callback \<open>continue_order:request_id\<close> of
  \<open>user_id\<close>. \<open>set_data\<close> raises on a snapshot that is not a dictionary; \<open>resume_ok\<close>
  tells whether the messaging calls of the \<open>try\<close> block, which come after the row is
  deleted, return. The \<open>except\<close> branch deletes the row as well.\<close>

definition handle_continue_order :: "string \<Rightarrow> int \<Rightarrow> bool \<Rightarrow> bot \<Rightarrow> bot" where
  "handle_continue_order request_id user_id resume_ok s =
     (case get_approval_request_by_id request_id (requests s) of
        None \<Rightarrow> reply user_id MessageDeleted (reply user_id NotFoundOrProcessed s)
      | Some (request_data, user_data_snapshot) \<Rightarrow>
          if r_user_id request_data \<noteq> user_id then reply user_id NotYourRequest s
          else if r_status request_data \<noteq> ''approved'' then
            (if r_status request_data = ''rejected'' then reply user_id ManagerRejected s
             else reply user_id NotYetApproved s)
          else
            (case user_data_snapshot of
               PDict d \<Rightarrow>
                 (let s1 = state_set_data user_id d s;
                      s2 = s1\<lparr>requests := fst (delete_approval_request request_id (requests s1))\<rparr>
                  in if resume_ok then
                       (let s3 = reply user_id DataRestored s2;
                            s4 = reply user_id MessageDeleted s3;
                            s5 = reply user_id
                                   (ResumePrompt
                                      (case map_of d ''article'' of
                                         Some v \<Rightarrow> v | None \<Rightarrow> PStr ''N/A'')
                                      (case map_of d ''product_name'' of
                                         Some v \<Rightarrow> v | None \<Rightarrow> PStr ''N/A'')
                                      (case map_of d ''department'' of
                                         Some v \<Rightarrow> v | None \<Rightarrow> PStr ''N/A'')
                                      (case map_of d ''quantity'' of
                                         Some v \<Rightarrow> v | None \<Rightarrow> PStr ''N/A'')) s4
                        in state_set_state user_id order_reason_input s5)
                     else
                       (let s3 = reply user_id RestoreError s2;
                            s4 = s3\<lparr>requests :=
                                      fst (delete_approval_request request_id (requests s3))\<rparr>
                        in state_clear user_id s4))
             | _ \<Rightarrow>
                 (let s1 = reply user_id RestoreError s;
                      s2 = s1\<lparr>requests :=
                                fst (delete_approval_request request_id (requests s1))\<rparr>
                  in state_clear user_id s2)))"

section \<open>The approval gate (\<open>process_quantity_input\<close>)\<close>

text \<open>What \<open>get_product_info\<close> returns for the article and the shop.\<close>

record product_info =
  p_name :: pyval
  p_department :: string
  p_supplier :: pyval
  p_order_date :: pyval
  p_delivery_date :: pyval
  p_top :: string

definition manager_full_name :: "manager_info \<Rightarrow> manager_name" where
  "manager_full_name info =
     (let name = strip (m_first_name info @ '' '' @ m_last_name info)
      in if name = [] then UnknownManager else FullName name)"

text \<open>
  \<open>quantity\<close> is \<open>int(message.text)\<close> as Python evaluates it: the number, or the
  exception it raises (\<open>ValueError\<close> is handled, any other propagates).
  \<open>request_id\<close> is the fresh \<open>uuid4\<close>. \<open>sent\<close> is the outcome of sending the request
  to the approver: the id of the message, or \<open>None\<close> when sending raises.
  \<open>data['article']\<close> and \<open>data['selected_shop']\<close> raise \<open>KeyError\<close> on a session
  without them. In the \<open>except\<close> branch the error reply to the requester comes before
  \<open>delete_approval_request\<close> and is not guarded: \<open>error_reply_ok\<close> tells whether it
  returns; when it raises, the handler is left there. When the handler raises, its
  value is the exception with the state reached at that point.
\<close>

definition process_quantity_input ::
  "int \<Rightarrow> py_error + int \<Rightarrow> product_info option \<Rightarrow> directory \<Rightarrow> string \<Rightarrow> int option \<Rightarrow>
   bool \<Rightarrow> timestamp \<Rightarrow> bot \<Rightarrow> py_error \<times> bot + bot" where
  "process_quantity_input user_id quantity product_info directory request_id sent
     error_reply_ok now s =
     (case quantity of
        Inl e \<Rightarrow> if e = ValueError then Inr (reply user_id QuantityBadFormat s) else Inl (e, s)
      | Inr quantity \<Rightarrow>
          if quantity \<le> 0 then Inr (reply user_id QuantityNotPositive s)
          else
            (let s1 = state_update_data user_id [(''quantity'', PInt quantity)] s;
                 data = state_get_data user_id s1
             in case map_of data ''article'' of
                  None \<Rightarrow> Inl (KeyError, s1)
                | Some article \<Rightarrow>
                   (case map_of data ''selected_shop'' of
                      None \<Rightarrow> Inl (KeyError, s1)
                    | Some selected_shop \<Rightarrow>
                       (case product_info of
                          None \<Rightarrow>
                            Inr (state_clear user_id (reply user_id ProductInfoUnavailable s1))
                        | Some info \<Rightarrow>
                           (let s2 = state_update_data user_id
                                       [(''product_name'', p_name info),
                                        (''department'', PStr (p_department info)),
                                        (''supplier_name'', p_supplier info),
                                        (''order_date'', p_order_date info),
                                        (''delivery_date'', p_delivery_date info),
                                        (''top_in_shop'', PStr (p_top info))] s1
                            in if p_top info = ''0'' then
                                 (case directory (p_department info) of
                                    None \<Rightarrow>
                                      Inr (state_clear user_id (reply user_id NoManager s2))
                                  | Some manager_info \<Rightarrow>
                                     (let manager_id = m_id manager_info;
                                          current_state_data = state_get_data user_id s2
                                      in case create_approval_request request_id user_id
                                                manager_id (p_department info) article
                                                selected_shop (p_name info) (p_supplier info)
                                                current_state_data now (requests s2) of
                                           (store, success_db_create) \<Rightarrow>
                                             if \<not> success_db_create then
                                               Inr (state_clear user_id
                                                     (reply user_id CreateRequestError s2))
                                             else
                                               (let s3 = s2\<lparr>requests := store\<rparr>
                                                in case sent of
                                                     Some message_id \<Rightarrow>
                                                       (let s4 = reply manager_id
                                                                   (ApprovalNeeded request_id
                                                                      user_id selected_shop article
                                                                      (p_name info) quantity
                                                                      (p_supplier info)
                                                                      (p_department info)) s3;
                                                            s5 = s4\<lparr>requests :=
                                                                   fst (update_approval_request_status
                                                                          request_id ''pending''
                                                                          (Some message_id) None now
                                                                          (requests s4))\<rparr>;
                                                            s6 = reply user_id
                                                                   (OrderPaused (p_department info)
                                                                      (manager_full_name manager_info))
                                                                   s5
                                                        in Inr (state_clear user_id s6))
                                                   | None \<Rightarrow>
                                                       if \<not> error_reply_ok
                                                       then Inl (TelegramError, s3)
                                                       else
                                                       (let s4 = reply user_id ManagerSendFailed s3;
                                                            s5 = s4\<lparr>requests :=
                                                                   fst (delete_approval_request
                                                                          request_id (requests s4))\<rparr>
                                                        in Inr (state_clear user_id s5)))))
                               else
                                 Inr (state_set_state user_id order_reason_input
                                       (reply user_id AskOrderReason s2)))))))"

section \<open>Order finalisation (\<open>final_confirmation\<close>)\<close>

definition required_fields :: "string list" where
  "required_fields =
     [''selected_shop'', ''article'', ''order_reason'', ''quantity'', ''department'',
      ''user_name'', ''user_position'']"

text \<open>\<open>stamp\<close> is \<open>datetime.now().isoformat()\<close>; \<open>db_ok\<close> is passed to
  \<open>add_order_to_queue\<close>. The messages to the administrators are sent inside \<open>try\<close>.\<close>

definition final_confirmation :: "int \<Rightarrow> string \<Rightarrow> bool \<Rightarrow> timestamp \<Rightarrow> bot \<Rightarrow> bot" where
  "final_confirmation user_id stamp db_ok now s =
     (let s1 = state_update_data user_id [(''last_activity'', PStr stamp)] s;
          data = state_get_data user_id s1;
          missing_fields = filter (\<lambda>field. map_of data field = None) required_fields
      in if missing_fields \<noteq> [] then
           state_clear user_id (reply user_id (MissingFields missing_fields) s1)
         else
           (let s2 = reply user_id OrderSent s1
            in case add_order_to_queue db_ok user_id data now (queue s2) of
                 (q, success_enqueue) \<Rightarrow>
                   if \<not> success_enqueue then
                     (let alert = EnqueueFailed user_id
                                    (case map_of data ''article'' of
                                       Some v \<Rightarrow> v | None \<Rightarrow> PStr ''N/A'')
                                    (case map_of data ''selected_shop'' of
                                       Some v \<Rightarrow> v | None \<Rightarrow> PStr ''N/A'');
                          s3 = s2\<lparr>queue := q, critical_log := critical_log s2 @ [alert]\<rparr>;
                          s4 = foldl (\<lambda>st admin_id. reply admin_id alert st) s3 ADMINS
                      in state_clear user_id s4)
                   else state_clear user_id (s2\<lparr>queue := q\<rparr>)))"

section \<open>The operations on a request, in sequence\<close>

text \<open>
  The operations that write the status of a request: the gate creates the row
  (\<open>create_approval_request\<close>); after the approver has been notified the gate records
  the message handle with \<open>update_approval_request_status(request_id, 'pending',
  message_id)\<close>; the approver approves; the approver rejects with a comment (the reject
  button, then the comment); the requester resumes.
\<close>

datatype op =
    GateCreation string int int "(string \<times> pyval) list"
  | MessageHandleRecording string int
  | ApproveDecision string int
  | RejectDecision string int string
  | Resume string int

definition no_directory :: directory where
  "no_directory = (\<lambda>department. None)"

fun apply_op :: "timestamp \<Rightarrow> bot \<Rightarrow> op \<Rightarrow> bot" where
  "apply_op now s (GateCreation request_id user_id manager_id user_data) =
     s\<lparr>requests := fst (create_approval_request request_id user_id manager_id ''5''
                          (PStr ''12345'') (PStr ''7'') (PStr ''item'') (PStr ''supplier'')
                          user_data now (requests s))\<rparr>"
| "apply_op now s (MessageHandleRecording request_id message_id) =
     s\<lparr>requests := fst (update_approval_request_status request_id ''pending''
                          (Some message_id) None now (requests s))\<rparr>"
| "apply_op now s (ApproveDecision request_id manager_id) =
     handle_manager_approval ''approve'' request_id manager_id True True now s"
| "apply_op now s (RejectDecision request_id manager_id comment) =
     (case handle_manager_reject_comment manager_id (Some comment) True no_directory now
             (handle_manager_approval ''start_reject'' request_id manager_id True True now s) of
        Inl e \<Rightarrow> s
      | Inr s' \<Rightarrow> s')"
| "apply_op now s (Resume request_id user_id) = handle_continue_order request_id user_id True s"

definition run_ops :: "timestamp \<Rightarrow> bot \<Rightarrow> op list \<Rightarrow> bot" where
  "run_ops now s ops = foldl (apply_op now) s ops"

definition status_of :: "string \<Rightarrow> bot \<Rightarrow> string option" where
  "status_of request_id s = map_option r_status (requests s request_id)"

definition empty_bot :: bot where
  "empty_bot =
     \<lparr>requests = Map.empty, fsm = (\<lambda>u. \<lparr>fsm_state = None, fsm_data = []\<rparr>), outbox = [],
      queue = [], critical_log = []\<rparr>"

section \<open>Sample data\<close>

definition sample_order :: "(string \<times> pyval) list" where
  "sample_order =
     [(''selected_shop'', PStr ''7''), (''article'', PStr ''12345''),
      (''order_reason'', PStr ''client''), (''quantity'', PInt 2),
      (''department'', PStr ''5''), (''user_name'', PStr ''Ann''),
      (''user_position'', PStr ''seller'')]"

definition sample_row :: "int \<Rightarrow> timestamp \<Rightarrow> json_text \<Rightarrow> order_row" where
  "sample_row i t payload =
     \<lparr>q_id = i, q_user_id = 100 + i, q_order_data = payload, q_status = ''pending'',
      q_attempt_count = 0, q_last_attempt = None, q_error_message = None,
      q_created_at = t, q_processed_at = None\<rparr>"

definition two_rows :: order_queue where
  "two_rows = [sample_row 1 20 (json_dumps (PDict sample_order)),
               sample_row 2 10 (json_dumps (PDict sample_order))]"

definition bad_row :: "int \<Rightarrow> timestamp \<Rightarrow> order_row" where
  "bad_row i t = sample_row i t (NotJson ''{broken'')"

definition good_row :: "int \<Rightarrow> timestamp \<Rightarrow> order_row" where
  "good_row i t = sample_row i t (json_dumps (PDict sample_order))"

text \<open>Five rows with a broken payload, created before a well-formed order.\<close>

definition blocked_worker :: worker where
  "blocked_worker =
     \<lparr>w_queue = [bad_row 1 1, bad_row 2 2, bad_row 3 3, bad_row 4 4, bad_row 5 5, good_row 6 6],
      w_clock = 100, w_events = []\<rparr>"

text \<open>One order that has failed four times.\<close>

definition last_chance_row :: order_row where
  "last_chance_row = (good_row 1 10)\<lparr>q_status := ''failed'', q_attempt_count := 4\<rparr>"

definition last_chance_worker :: worker where
  "last_chance_worker = \<lparr>w_queue = [last_chance_row], w_clock = 100, w_events = []\<rparr>"

definition fresh_worker :: worker where
  "fresh_worker = \<lparr>w_queue = [good_row 1 10], w_clock = 100, w_events = []\<rparr>"

definition always_fails :: ledger where
  "always_fails = (\<lambda>now order_item. Some ''boom'')"

text \<open>User 7 is about to confirm the sample order.\<close>

definition confirming_bot :: bot where
  "confirming_bot =
     empty_bot\<lparr>fsm := (fsm empty_bot)
       (7 := \<lparr>fsm_state = Some ''OrderStates:confirmation'', fsm_data = sample_order\<rparr>)\<rparr>"

text \<open>User 7 has chosen an article of department 5 that needs approval; the approver of
  the department is user 9.\<close>

definition ordering_bot :: bot where
  "ordering_bot =
     empty_bot\<lparr>fsm := (fsm empty_bot)
       (7 := \<lparr>fsm_state = Some ''OrderStates:quantity_input'',
              fsm_data = [(''user_name'', PStr ''Ann''), (''user_position'', PStr ''seller''),
                          (''article'', PStr ''12345''), (''selected_shop'', PStr ''7'')]\<rparr>)\<rparr>"

definition sample_info :: product_info where
  "sample_info =
     \<lparr>p_name = PStr ''item'', p_department = ''5'', p_supplier = PStr ''supplier'',
      p_order_date = PStr ''01.02.2024'', p_delivery_date = PStr ''05.02.2024'', p_top = ''0''\<rparr>"

definition sample_directory :: directory where
  "sample_directory =
     (\<lambda>department. if department = ''5''
        then Some \<lparr>m_id = 9, m_first_name = ''Bob'', m_last_name = ''Lee'', m_department = ''5''\<rparr>
        else None)"

text \<open>Request \<open>r1\<close> of user 7, assigned to approver 9, in a given status; and the
  approver about to type the reason of a rejection.\<close>

definition sample_request :: "string \<Rightarrow> approval_request" where
  "sample_request status =
     \<lparr>r_request_id = ''r1'', r_user_id = 7, r_manager_id = 9, r_department = ''5'',
      r_article = PStr ''12345'', r_shop = PStr ''7'', r_product_name = PStr ''item'',
      r_product_supplier = PStr ''supplier'', r_status = status,
      r_user_data = json_dumps (PDict sample_order), r_manager_message_id = Some 42,
      r_reject_comment = None, r_created_at = 10, r_updated_at = 10\<rparr>"

definition awaiting_comment_bot :: "string \<Rightarrow> bot" where
  "awaiting_comment_bot status =
     empty_bot\<lparr>requests := [''r1'' \<mapsto> sample_request status],
       fsm := (fsm empty_bot)
         (9 := \<lparr>fsm_state = Some awaiting_reject_comment,
                fsm_data = [(''current_reject_request_id'', PStr ''r1'')]\<rparr>)\<rparr>"

section \<open>Basic facts\<close>

lemma map_of_dict_set:
  "map_of (dict_set k v d) k' = (if k' = k then Some v else map_of d k')"
  by (induction d) auto

lemma sample_order_roundtrip:
  "json_loads (json_dumps (PDict sample_order)) = Some (PDict sample_order)"
  by (simp add: json_dumps_def sample_order_def dict_of_pairs_def)

lemmas gate_defs =
  process_quantity_input_def Let_def state_update_data_def state_set_data_def
  state_get_data_def state_clear_def state_set_state_def reply_def
  create_approval_request_def update_approval_request_status_def
  delete_approval_request_def

lemmas resume_defs =
  handle_manager_approval_def handle_manager_reject_comment_def handle_continue_order_def
  get_approval_request_by_id_def update_approval_request_status_def
  delete_approval_request_def Let_def reply_def state_clear_def state_set_state_def
  state_set_data_def state_update_data_def state_get_data_def

section \<open>Properties of the queue store\<close>

lemma length_update_order_status:
  "length (fst (update_order_status order_id status error_message now q)) = length q"
  by (simp add: update_order_status_def)

lemma nth_update_order_status:
  assumes "i < length q"
  shows "fst (update_order_status order_id status error_message now q) ! i =
         (if q_id (q ! i) = order_id then set_status status error_message now (q ! i) else q ! i)"
  using assms by (simp add: update_order_status_def)

text \<open>
  Claim C7. \<open>update_order_status\<close> touches only the rows with the given id. On such a
  row it sets the status and the last-attempt time; \<open>completed\<close> also sets
  \<open>processed_at\<close> and keeps \<open>attempt_count\<close> and \<open>error_message\<close>; \<open>failed\<close> adds
  exactly one to \<open>attempt_count\<close> and stores the error message; every other status
  keeps \<open>attempt_count\<close>, \<open>error_message\<close> and \<open>processed_at\<close>. The payload, the
  user, the id and \<open>created_at\<close> are never changed, \<open>attempt_count\<close> never decreases,
  and it grows only when the status written is \<open>failed\<close>.
\<close>

theorem update_order_status_frame:
  assumes "i < length q"
  shows "let r = q ! i;
             r' = fst (update_order_status order_id status error_message now q) ! i
         in length (fst (update_order_status order_id status error_message now q)) = length q \<and>
            (q_id r \<noteq> order_id \<longrightarrow> r' = r) \<and>
            (q_id r = order_id \<longrightarrow>
               q_status r' = status \<and> q_last_attempt r' = Some now \<and>
               q_id r' = q_id r \<and> q_user_id r' = q_user_id r \<and>
               q_order_data r' = q_order_data r \<and> q_created_at r' = q_created_at r) \<and>
            (q_id r = order_id \<and> status = ''completed'' \<longrightarrow>
               q_processed_at r' = Some now \<and> q_attempt_count r' = q_attempt_count r \<and>
               q_error_message r' = q_error_message r) \<and>
            (q_id r = order_id \<and> status = ''failed'' \<longrightarrow>
               q_attempt_count r' = q_attempt_count r + 1 \<and>
               q_error_message r' = error_message \<and> q_processed_at r' = q_processed_at r) \<and>
            (q_id r = order_id \<and> status \<noteq> ''completed'' \<and> status \<noteq> ''failed'' \<longrightarrow>
               q_attempt_count r' = q_attempt_count r \<and>
               q_error_message r' = q_error_message r \<and>
               q_processed_at r' = q_processed_at r) \<and>
            q_attempt_count r \<le> q_attempt_count r' \<and>
            (q_attempt_count r < q_attempt_count r' \<longrightarrow>
               status = ''failed'' \<and> q_id r = order_id)"
  using assms
  by (simp add: Let_def nth_update_order_status length_update_order_status set_status_def)

theorem update_order_status_frame_witness:
  "(0::nat) < length [sample_row 1 10 (json_dumps (PDict sample_order))] \<and>
   q_attempt_count
     (fst (update_order_status 1 ''failed'' (Some ''boom'') 11
            [sample_row 1 10 (json_dumps (PDict sample_order))]) ! 0) = 1 \<and>
   q_error_message
     (fst (update_order_status 1 ''failed'' (Some ''boom'') 11
            [sample_row 1 10 (json_dumps (PDict sample_order))]) ! 0) = Some ''boom''"
  using update_order_status_frame
    [of 0 "[sample_row 1 10 (json_dumps (PDict sample_order))]" 1 "''failed''" "Some ''boom''" 11]
  by (simp add: Let_def sample_row_def)

section \<open>Claiming a batch\<close>

lemma load_rows_append: "load_rows (xs @ ys) = load_rows xs @ load_rows ys"
  by (induction xs) (auto split: option.splits)

lemma load_rows_ids: "map c_id (load_rows rows) = map q_id (filter parses rows)"
  by (induction rows) (auto simp: parses_def split: option.splits)

lemma load_rows_users: "map c_user_id (load_rows rows) = map q_user_id (filter parses rows)"
  by (induction rows) (auto simp: parses_def split: option.splits)

lemma load_rows_attempts:
  "map c_attempt_count (load_rows rows) = map q_attempt_count (filter parses rows)"
  by (induction rows) (auto simp: parses_def split: option.splits)

lemma load_rows_payloads:
  "map (\<lambda>c. Some (c_order_data c)) (load_rows rows) =
   map (\<lambda>r. json_loads (q_order_data r)) (filter parses rows)"
  by (induction rows) (auto simp: parses_def split: option.splits)

lemma length_load_rows: "length (load_rows rows) = length (filter parses rows)"
  by (induction rows) (auto simp: parses_def split: option.splits)

lemma set_sql_limit: "set (sql_limit n xs) \<subseteq> set xs"
  by (auto simp: sql_limit_def dest: in_set_takeD)

lemma set_select_pending: "set (select_pending limit q) \<subseteq> {r \<in> set q. eligible r}"
  using set_sql_limit [of limit "sort_key q_created_at (filter eligible q)"]
  by (auto simp: select_pending_def)

lemma sorted_select_pending: "sorted (map q_created_at (select_pending limit q))"
  by (simp add: select_pending_def sql_limit_def sorted_wrt_take take_map [symmetric] del: take_map)

lemma length_select_pending: "0 \<le> limit \<Longrightarrow> length (select_pending limit q) \<le> nat limit"
  by (simp add: select_pending_def sql_limit_def)

lemma sorted_claimed_rows: "sorted (map q_created_at (claimed_rows limit q))"
  unfolding claimed_rows_def
  using sorted_select_pending [of limit q] 
  by (simp add: sorted_filter)

lemma before_in_sorted:
  assumes "sorted (map f xs)" and "j < length xs" and "xs ! j = B" and "A \<in> set xs"
    and "f A < (f B :: nat)"
  shows "\<exists>i<j. xs ! i = A"
proof -
  from assms(4) obtain i where i: "i < length xs" "xs ! i = A"
    by (auto simp: in_set_conv_nth)
  have "i < j"
  proof (rule ccontr)
    assume "\<not> i < j"
    then have "j \<le> i" by simp
    with assms(1) i(1) have "map f xs ! j \<le> map f xs ! i"
      by (simp add: sorted_iff_nth_mono)
    with assms(2,3,5) i show False by simp
  qed
  with i show ?thesis by blast
qed


lemma split_two:
  assumes "i < j" and "j < length xs"
  shows "\<exists>ys zs ws. xs = ys @ xs ! i # zs @ xs ! j # ws"
proof -
  from assms have i: "i < length xs" by simp
  have 1: "xs = take i xs @ xs ! i # drop (Suc i) xs"
    using i by (simp add: id_take_nth_drop)
  let ?r = "drop (Suc i) xs"
  let ?k = "j - Suc i"
  have k: "?k < length ?r" using assms by simp
  have rk: "?r ! ?k = xs ! j" using assms by simp
  have 2: "?r = take ?k ?r @ ?r ! ?k # drop (Suc ?k) ?r"
    using k by (simp only: id_take_nth_drop [symmetric])
  have "xs = take i xs @ xs ! i # (take ?k ?r @ xs ! j # drop (Suc ?k) ?r)"
    using 1 2 rk by metis
  then show ?thesis by blast
qed

lemma sql_limit_take: "\<exists>m. sql_limit n xs = take m xs"
proof (cases "n < 0")
  case True
  then have "sql_limit n xs = take (length xs) xs" by (simp add: sql_limit_def)
  then show ?thesis ..
next
  case False
  then have "sql_limit n xs = take (nat n) xs" by (simp add: sql_limit_def)
  then show ?thesis ..
qed

lemma load_rows_Cons_parses:
  assumes "parses r"
  shows "\<exists>c. load_rows (r # rows) = c # load_rows rows \<and> c_id c = q_id r"
  using assms by (auto simp: parses_def split: option.splits)

lemma fifo_before:
  assumes A: "A \<in> set q" "eligible A" "parses A"
    and B: "B \<in> set (claimed_rows limit q)"
    and lt: "q_created_at A < q_created_at B"
  shows "\<exists>es1 a es2 b es3. get_pending_orders limit q = es1 @ a # es2 @ b # es3 \<and>
           c_id a = q_id A \<and> c_id b = q_id B"
proof -
  let ?xs = "sort_key q_created_at (filter eligible q)"
  obtain m where m: "select_pending limit q = take m ?xs"
    using sql_limit_take [of limit ?xs] by (auto simp: select_pending_def)
  let ?sl = "take m ?xs"
  from B m have Bsl: "B \<in> set ?sl" and pB: "parses B"
    by (auto simp: claimed_rows_def)
  then obtain j where j: "j < length ?sl" "?sl ! j = B"
    by (auto simp: in_set_conv_nth)
  then have jx: "j < length ?xs" "?xs ! j = B" "j < m" by auto
  have Ax: "A \<in> set ?xs" using A by simp
  have "sorted (map q_created_at ?xs)" by simp
  from before_in_sorted [OF this jx(1) jx(2) Ax lt]
  obtain i where i: "i < j" "?xs ! i = A" by blast
  with jx have Ai: "?sl ! i = A" by simp
  from split_two [OF i(1) j(1)] Ai j(2)
  obtain ys zs ws where "?sl = ys @ A # zs @ B # ws" by auto
  then have "select_pending limit q = ys @ (A # zs) @ (B # ws)"
    using m by simp
  then have "get_pending_orders limit q =
             load_rows ys @ load_rows (A # zs) @ load_rows (B # ws)"
    by (simp only: get_pending_orders_def load_rows_append)
  moreover obtain a where "load_rows (A # zs) = a # load_rows zs" "c_id a = q_id A"
    using load_rows_Cons_parses [OF A(3)] by blast
  moreover obtain b where "load_rows (B # ws) = b # load_rows ws" "c_id b = q_id B"
    using load_rows_Cons_parses [OF pB] by blast
  ultimately have "get_pending_orders limit q =
      load_rows ys @ a # load_rows zs @ b # load_rows ws \<and> c_id a = q_id A \<and> c_id b = q_id B"
    by simp
  then show ?thesis by blast
qed

text \<open>
  Claim C6, as amended. For every queue and every limit that is not negative,
  \<open>get_pending_orders\<close> returns at most \<open>limit\<close> entries (a negative limit is
  SQLite's "no limit", and then all eligible rows are returned). For every limit, the
  returned entries are, field by field, those of the rows \<open>claimed_rows limit q\<close>; these
  are rows of the queue, each is eligible (\<open>pending\<close>, or \<open>failed\<close> with fewer than
  five attempts), and they are in ascending order of \<open>created_at\<close>. FIFO: when a row
  \<open>B\<close> is returned and a pending row \<open>A\<close> with a payload that parses was created
  strictly before it, the entry of \<open>A\<close> is returned too, before that of \<open>B\<close>.
\<close>

theorem get_pending_orders_claim_batch:
  "(0 \<le> limit \<longrightarrow> int (length (get_pending_orders limit q)) \<le> limit) \<and>
   map c_id (get_pending_orders limit q) = map q_id (claimed_rows limit q) \<and>
   map c_user_id (get_pending_orders limit q) = map q_user_id (claimed_rows limit q) \<and>
   map c_attempt_count (get_pending_orders limit q) =
     map q_attempt_count (claimed_rows limit q) \<and>
   set (claimed_rows limit q) \<subseteq> set q \<and>
   (\<forall>r \<in> set (claimed_rows limit q).
      q_status r = ''pending'' \<or> (q_status r = ''failed'' \<and> q_attempt_count r < 5)) \<and>
   sorted (map q_created_at (claimed_rows limit q)) \<and>
   (\<forall>A B. A \<in> set q \<and> q_status A = ''pending'' \<and> parses A \<and>
          B \<in> set (claimed_rows limit q) \<and> q_created_at A < q_created_at B \<longrightarrow>
          (\<exists>es1 a es2 b es3. get_pending_orders limit q = es1 @ a # es2 @ b # es3 \<and>
             c_id a = q_id A \<and> c_id b = q_id B))"
proof -
  have len: "0 \<le> limit \<longrightarrow> int (length (get_pending_orders limit q)) \<le> limit"
  proof
    assume l: "0 \<le> limit"
    have "length (get_pending_orders limit q) \<le> length (select_pending limit q)"
      by (simp add: get_pending_orders_def length_load_rows)
    also have "\<dots> \<le> nat limit" using l by (rule length_select_pending)
    finally show "int (length (get_pending_orders limit q)) \<le> limit" using l by simp
  qed
  have sub: "set (claimed_rows limit q) \<subseteq> set q"
    using set_select_pending [of limit q] by (auto simp: claimed_rows_def)
  have el: "\<forall>r \<in> set (claimed_rows limit q).
      q_status r = ''pending'' \<or> (q_status r = ''failed'' \<and> q_attempt_count r < 5)"
    using set_select_pending [of limit q]
    by (auto simp: claimed_rows_def eligible_def MAX_ATTEMPTS_def)
  have fifo: "\<forall>A B. A \<in> set q \<and> q_status A = ''pending'' \<and> parses A \<and>
          B \<in> set (claimed_rows limit q) \<and> q_created_at A < q_created_at B \<longrightarrow>
          (\<exists>es1 a es2 b es3. get_pending_orders limit q = es1 @ a # es2 @ b # es3 \<and>
             c_id a = q_id A \<and> c_id b = q_id B)"
  proof (intro allI impI)
    fix A B
    assume h: "A \<in> set q \<and> q_status A = ''pending'' \<and> parses A \<and>
          B \<in> set (claimed_rows limit q) \<and> q_created_at A < q_created_at B"
    then have "eligible A" by (simp add: eligible_def)
    with h show "\<exists>es1 a es2 b es3. get_pending_orders limit q = es1 @ a # es2 @ b # es3 \<and>
             c_id a = q_id A \<and> c_id b = q_id B"
      using fifo_before [of A q B limit] by blast
  qed
  show ?thesis
    using len sub el fifo sorted_claimed_rows [of limit q]
    by (simp add: get_pending_orders_def claimed_rows_def load_rows_ids load_rows_users
        load_rows_attempts)
qed

theorem get_pending_orders_claim_batch_witness:
  "int (length (get_pending_orders 2 two_rows)) \<le> 2 \<and>
   (\<exists>es1 a es2 b es3. get_pending_orders 2 two_rows = es1 @ a # es2 @ b # es3 \<and>
      c_id a = 2 \<and> c_id b = 1)"
proof -
  let ?A = "sample_row 2 10 (json_dumps (PDict sample_order))"
  let ?B = "sample_row 1 20 (json_dumps (PDict sample_order))"
  have h: "?A \<in> set two_rows \<and> q_status ?A = ''pending'' \<and> parses ?A \<and>
           ?B \<in> set (claimed_rows 2 two_rows) \<and> q_created_at ?A < q_created_at ?B"
    by (simp add: two_rows_def claimed_rows_def select_pending_def sql_limit_def
        sample_row_def eligible_def parses_def json_dumps_def)
  have ids: "q_id ?A = 2" "q_id ?B = 1" by (simp_all add: sample_row_def)
  from get_pending_orders_claim_batch [of 2 two_rows] h ids show ?thesis
    by (metis zero_le_numeral of_nat_numeral)
qed

text \<open>The bound of claim C6 as stated, for every limit, fails at \<open>limit = -1\<close>: all
  eligible rows are returned.\<close>

theorem get_pending_orders_negative_limit:
  "get_pending_orders (- 1) [good_row 1 10] =
     [\<lparr>c_id = 1, c_user_id = 101, c_order_data = PDict sample_order, c_attempt_count = 0\<rparr>] \<and>
   \<not> int (length (get_pending_orders (- 1) [good_row 1 10])) \<le> - 1"
  by (simp add: get_pending_orders_def select_pending_def sql_limit_def good_row_def
      sample_row_def eligible_def json_dumps_def dict_of_pairs_def sample_order_def)

section \<open>The worker leaves the rows it has not claimed alone\<close>

lemma ids_update_order_status:
  "map q_id (fst (update_order_status order_id status error_message now q)) = map q_id q"
  by (induction q) (auto simp: update_order_status_def set_status_def)

lemma other_row_update_order_status:
  assumes "r \<in> set q" and "q_id r \<noteq> order_id"
  shows "r \<in> set (fst (update_order_status order_id status error_message now q))"
  using assms by (force simp: update_order_status_def)

lemma same_id_same_row:
  assumes "distinct (map q_id q)" and "r \<in> set q" and "r' \<in> set q" and "q_id r = q_id r'"
  shows "r = r'"
  using assms by (meson distinct_map inj_onD)

lemma never_returned:
  assumes "distinct (map q_id q)" and "r \<in> set q" and "\<not> eligible r \<or> \<not> parses r"
  shows "q_id r \<notin> c_id ` set (get_pending_orders limit q)"
proof
  assume "q_id r \<in> c_id ` set (get_pending_orders limit q)"
  then have "q_id r \<in> set (map c_id (get_pending_orders limit q))" by simp
  then have "q_id r \<in> set (map q_id (claimed_rows limit q))"
    by (simp only: get_pending_orders_def claimed_rows_def load_rows_ids)
  then obtain r' where r': "r' \<in> set (claimed_rows limit q)" "q_id r' = q_id r" by auto
  then have "r' \<in> set q" "eligible r'" "parses r'"
    using set_select_pending [of limit q] by (auto simp: claimed_rows_def)
  with assms r' show False using same_id_same_row [of q r r'] by auto
qed

lemma process_item_ids:
  "map q_id (w_queue (process_item write w c)) = map q_id (w_queue w)"
  by (simp add: process_item_def Let_def ids_update_order_status split: option.splits)

lemma process_item_other_row:
  assumes "r \<in> set (w_queue w)" and "q_id r \<noteq> c_id c"
  shows "r \<in> set (w_queue (process_item write w c))"
  using assms
  by (simp add: process_item_def Let_def other_row_update_order_status split: option.splits)

lemma final_alerts_order: "\<forall>e \<in> set (final_alerts order_id user_id order_data error_msg). event_order e = order_id"
  by (auto simp: final_alerts_def split: option.splits)

lemma process_item_events:
  "\<exists>new. w_events (process_item write w c) = w_events w @ new \<and>
         (\<forall>e \<in> set new. event_order e = c_id c)"
  using final_alerts_order
  by (auto simp: process_item_def Let_def split: option.splits)

lemma batch_ids:
  "map q_id (w_queue (foldl (process_item write) w cs)) = map q_id (w_queue w)"
  by (induction cs arbitrary: w) (simp_all add: process_item_ids)

lemma batch_other_row:
  assumes "r \<in> set (w_queue w)" and "q_id r \<notin> c_id ` set cs"
  shows "r \<in> set (w_queue (foldl (process_item write) w cs))"
  using assms
  by (induction cs arbitrary: w) (simp_all add: process_item_other_row)

lemma batch_events:
  "\<exists>new. w_events (foldl (process_item write) w cs) = w_events w @ new \<and>
         (\<forall>e \<in> set new. event_order e \<in> c_id ` set cs)"
proof (induction cs arbitrary: w)
  case Nil
  then show ?case by simp
next
  case (Cons c cs)
  obtain n1 where n1: "w_events (process_item write w c) = w_events w @ n1"
    "\<forall>e \<in> set n1. event_order e = c_id c"
    using process_item_events by blast
  obtain n2 where n2: "w_events (foldl (process_item write) (process_item write w c) cs) =
      w_events (process_item write w c) @ n2" "\<forall>e \<in> set n2. event_order e \<in> c_id ` set cs"
    using Cons.IH by blast
  have "w_events (foldl (process_item write) w (c # cs)) = w_events w @ (n1 @ n2)"
    using n1 n2 by simp
  moreover have "\<forall>e \<in> set (n1 @ n2). event_order e \<in> c_id ` set (c # cs)"
    using n1 n2 by auto
  ultimately show ?case by blast
qed

lemma cycle_ids: "map q_id (w_queue (worker_cycle write w)) = map q_id (w_queue w)"
  by (simp add: worker_cycle_def Let_def batch_ids)

lemma cycle_untouched:
  assumes "distinct (map q_id (w_queue w))" and "r \<in> set (w_queue w)"
    and "\<not> eligible r \<or> \<not> parses r"
  shows "r \<in> set (w_queue (worker_cycle write w)) \<and>
         (\<exists>new. w_events (worker_cycle write w) = w_events w @ new \<and>
            (\<forall>e \<in> set new. event_order e \<noteq> q_id r))"
proof -
  let ?cs = "get_pending_orders 5 (w_queue w)"
  have nr: "q_id r \<notin> c_id ` set ?cs" using assms by (rule never_returned)
  have 1: "r \<in> set (w_queue (worker_cycle write w))"
    using assms(2) nr by (simp add: worker_cycle_def Let_def batch_other_row)
  obtain new where new: "w_events (foldl (process_item write) w ?cs) = w_events w @ new"
    "\<forall>e \<in> set new. event_order e \<in> c_id ` set ?cs"
    using batch_events by blast
  have "w_events (worker_cycle write w) = w_events w @ (if ?cs = [] then [] else new)"
    using new by (simp add: worker_cycle_def Let_def)
  moreover have "\<forall>e \<in> set new. event_order e \<noteq> q_id r"
    using new(2) nr by metis
  then have "\<forall>e \<in> set (if ?cs = [] then [] else new). event_order e \<noteq> q_id r"
    by simp
  ultimately show ?thesis using 1 by blast
qed

lemma run_ids: "map q_id (w_queue (process_order_queue n write w)) = map q_id (w_queue w)"
  by (induction n arbitrary: w) (simp_all add: cycle_ids)

lemma run_untouched:
  assumes "distinct (map q_id (w_queue w))" and "r \<in> set (w_queue w)"
    and "\<not> eligible r \<or> \<not> parses r"
  shows "r \<in> set (w_queue (process_order_queue n write w)) \<and>
         (\<exists>new. w_events (process_order_queue n write w) = w_events w @ new \<and>
            (\<forall>e \<in> set new. event_order e \<noteq> q_id r))"
  using assms
proof (induction n arbitrary: w)
  case 0
  then show ?case by simp
next
  case (Suc n)
  let ?w1 = "worker_cycle write w"
  from cycle_untouched [OF Suc.prems] obtain n1 where
    1: "r \<in> set (w_queue ?w1)" "w_events ?w1 = w_events w @ n1"
       "\<forall>e \<in> set n1. event_order e \<noteq> q_id r" by blast
  have d: "distinct (map q_id (w_queue ?w1))" using Suc.prems(1) by (simp add: cycle_ids)
  from Suc.IH [OF d 1(1) Suc.prems(3)] obtain n2 where
    2: "r \<in> set (w_queue (process_order_queue n write ?w1))"
       "w_events (process_order_queue n write ?w1) = w_events ?w1 @ n2"
       "\<forall>e \<in> set n2. event_order e \<noteq> q_id r" by blast
  have "w_events (process_order_queue (Suc n) write w) = w_events w @ (n1 @ n2)"
    using 1 2 by simp
  moreover have "\<forall>e \<in> set (n1 @ n2). event_order e \<noteq> q_id r" using 1 2 by auto
  ultimately show ?case using 2(1) by (metis process_order_queue.simps(2))
qed

section \<open>Rows with a payload that does not parse\<close>

lemma load_rows_none: "(\<forall>r \<in> set rows. \<not> parses r) \<Longrightarrow> load_rows rows = []"
  by (induction rows) (auto simp: parses_def split: option.splits)

lemma blocked_run:
  assumes "get_pending_orders 5 (w_queue w) = []"
  shows "w_queue (process_order_queue n write w) = w_queue w \<and>
         w_events (process_order_queue n write w) = w_events w"
  using assms
proof (induction n arbitrary: w)
  case 0
  then show ?case by simp
next
  case (Suc n)
  let ?w1 = "worker_cycle write w"
  have 1: "w_queue ?w1 = w_queue w" "w_events ?w1 = w_events w"
    using Suc.prems by (simp_all add: worker_cycle_def)
  then have "get_pending_orders 5 (w_queue ?w1) = []" using Suc.prems by simp
  from Suc.IH [OF this] 1 show ?case by simp
qed

lemma slot_consumed:
  assumes "r \<in> set (select_pending limit q)" and "\<not> parses r"
  shows "length (get_pending_orders limit q) < length (select_pending limit q)"
  using assms by (simp add: get_pending_orders_def length_load_rows length_filter_less)

text \<open>
  Claim C10. Let \<open>r\<close> be a row of the queue whose payload is not valid JSON (ids are
  unique). \<open>get_pending_orders\<close> never returns an entry for \<open>r\<close>, whatever the limit;
  it only reads the table. A pending \<open>r\<close> still passes the \<open>WHERE\<close> clause, and when
  \<open>r\<close> is among the fetched rows the returned list is shorter than the fetched one:
  \<open>r\<close> has used one of the \<open>LIMIT\<close> places. Hence, for any number of worker
  iterations and any behaviour of the ledger, \<open>r\<close> stays in the table as it is (same
  status, same \<open>attempt_count\<close>), and no attempt and no alert is ever made for it.
  When all the fetched rows of a batch of five are such rows, every iteration finds
  nothing to do: the table never changes again and nothing at all is processed.
\<close>

theorem malformed_payload_starved:
  assumes "distinct (map q_id (w_queue w))"
    and "r \<in> set (w_queue w)"
    and "json_loads (q_order_data r) = None"
  shows "(\<forall>limit. q_id r \<notin> c_id ` set (get_pending_orders limit (w_queue w))) \<and>
         (q_status r = ''pending'' \<longrightarrow> eligible r) \<and>
         (\<forall>limit. r \<in> set (select_pending limit (w_queue w)) \<longrightarrow>
            length (get_pending_orders limit (w_queue w)) <
            length (select_pending limit (w_queue w))) \<and>
         (\<forall>n write.
            r \<in> set (w_queue (process_order_queue n write w)) \<and>
            (\<exists>new. w_events (process_order_queue n write w) = w_events w @ new \<and>
               (\<forall>e \<in> set new. event_order e \<noteq> q_id r))) \<and>
         ((\<forall>r' \<in> set (select_pending 5 (w_queue w)). json_loads (q_order_data r') = None) \<longrightarrow>
            (\<forall>n write.
               w_queue (process_order_queue n write w) = w_queue w \<and>
               w_events (process_order_queue n write w) = w_events w))"
proof -
  have np: "\<not> parses r" using assms(3) by (simp add: parses_def)
  have a: "\<forall>limit. q_id r \<notin> c_id ` set (get_pending_orders limit (w_queue w))"
    using never_returned [OF assms(1) assms(2)] np by blast
  have b: "q_status r = ''pending'' \<longrightarrow> eligible r" by (simp add: eligible_def)
  have c: "\<forall>limit. r \<in> set (select_pending limit (w_queue w)) \<longrightarrow>
            length (get_pending_orders limit (w_queue w)) <
            length (select_pending limit (w_queue w))"
    using slot_consumed np by blast
  have d: "\<forall>n write.
            r \<in> set (w_queue (process_order_queue n write w)) \<and>
            (\<exists>new. w_events (process_order_queue n write w) = w_events w @ new \<and>
               (\<forall>e \<in> set new. event_order e \<noteq> q_id r))"
    using run_untouched [OF assms(1) assms(2)] np by blast
  have e: "(\<forall>r' \<in> set (select_pending 5 (w_queue w)). json_loads (q_order_data r') = None) \<longrightarrow>
            (\<forall>n write.
               w_queue (process_order_queue n write w) = w_queue w \<and>
               w_events (process_order_queue n write w) = w_events w)"
  proof
    assume "\<forall>r' \<in> set (select_pending 5 (w_queue w)). json_loads (q_order_data r') = None"
    then have "get_pending_orders 5 (w_queue w) = []"
      by (simp add: get_pending_orders_def load_rows_none parses_def)
    then show "\<forall>n write.
               w_queue (process_order_queue n write w) = w_queue w \<and>
               w_events (process_order_queue n write w) = w_events w"
      using blocked_run by blast
  qed
  from a b c d e show ?thesis by blast
qed

lemma blocked_select:
  "select_pending 5 (w_queue blocked_worker) =
     [bad_row 1 1, bad_row 2 2, bad_row 3 3, bad_row 4 4, bad_row 5 5]"
  by (simp add: blocked_worker_def select_pending_def sql_limit_def eligible_def bad_row_def
      good_row_def sample_row_def)

theorem malformed_payload_starved_witness:
  "distinct (map q_id (w_queue blocked_worker)) \<and>
   bad_row 1 1 \<in> set (w_queue blocked_worker) \<and>
   json_loads (q_order_data (bad_row 1 1)) = None \<and>
   get_pending_orders 5 (w_queue blocked_worker) = [] \<and>
   (\<forall>n write.
      w_queue (process_order_queue n write blocked_worker) = w_queue blocked_worker \<and>
      w_events (process_order_queue n write blocked_worker) = [])"
proof -
  have h1: "distinct (map q_id (w_queue blocked_worker))"
    by (simp add: blocked_worker_def bad_row_def good_row_def sample_row_def)
  have h2: "bad_row 1 1 \<in> set (w_queue blocked_worker)"
    by (simp add: blocked_worker_def)
  have h3: "json_loads (q_order_data (bad_row 1 1)) = None"
    by (simp add: bad_row_def sample_row_def)
  have h4: "\<forall>r' \<in> set (select_pending 5 (w_queue blocked_worker)).
              json_loads (q_order_data r') = None"
    by (simp add: blocked_select bad_row_def sample_row_def)
  have h5: "get_pending_orders 5 (w_queue blocked_worker) = []"
    by (simp add: get_pending_orders_def blocked_select bad_row_def sample_row_def)
  have h6: "w_events blocked_worker = []" by (simp add: blocked_worker_def)
  from malformed_payload_starved [OF h1 h2 h3] h4 h6
  have "\<forall>n write.
      w_queue (process_order_queue n write blocked_worker) = w_queue blocked_worker \<and>
      w_events (process_order_queue n write blocked_worker) = []"
    by simp
  with h1 h2 h3 h5 show ?thesis by blast
qed

section \<open>Retry exhaustion\<close>

lemma own_row_update_order_status:
  assumes "r \<in> set q"
  shows "set_status status error_message now r \<in>
           set (fst (update_order_status (q_id r) status error_message now q))"
  using assms by (force simp: update_order_status_def)

lemma set_status_id: "q_id (set_status status error_message now r) = q_id r"
  by (simp add: set_status_def)

lemma final_alerts_dict:
  "final_alerts order_id user_id (PDict d) error_msg =
     map (\<lambda>admin_id. AdminAlert admin_id order_id user_id
            (case map_of d ''article'' of Some v \<Rightarrow> v | None \<Rightarrow> PStr ''N/A'')
            (case map_of d ''selected_shop'' of Some v \<Rightarrow> v | None \<Rightarrow> PStr ''N/A'')
            (take 300 error_msg)) ADMINS"
  by (simp add: final_alerts_def)

lemma process_item_failure:
  assumes "r \<in> set (w_queue w)" and "c_id c = q_id r" and "write (w_clock w) c = Some error_msg"
  shows "set_status ''failed'' (Some error_msg) (w_clock w)
           (set_status ''processing'' None (w_clock w) r) \<in> set (w_queue (process_item write w c))"
    and "w_events (process_item write w c) =
           w_events w @ [Attempt (q_id r)] @
             (if c_attempt_count c + 1 \<ge> max_retries
              then final_alerts (q_id r) (c_user_id c) (c_order_data c) error_msg else [])"
proof -
  let ?now = "w_clock w"
  let ?r1 = "set_status ''processing'' None ?now r"
  let ?q1 = "fst (update_order_status (q_id r) ''processing'' None ?now (w_queue w))"
  have 1: "?r1 \<in> set ?q1" using assms(1) by (rule own_row_update_order_status)
  have "set_status ''failed'' (Some error_msg) ?now ?r1 \<in>
          set (fst (update_order_status (q_id ?r1) ''failed'' (Some error_msg) ?now ?q1))"
    using 1 by (rule own_row_update_order_status)
  then show "set_status ''failed'' (Some error_msg) ?now ?r1 \<in>
               set (w_queue (process_item write w c))"
    using assms(2,3) by (simp add: process_item_def Let_def set_status_id)
  show "w_events (process_item write w c) =
           w_events w @ [Attempt (q_id r)] @
             (if c_attempt_count c + 1 \<ge> max_retries
              then final_alerts (q_id r) (c_user_id c) (c_order_data c) error_msg else [])"
    using assms(2,3) by (simp add: process_item_def Let_def)
qed

lemma process_item_no_alert:
  assumes "c_attempt_count c + 1 < max_retries"
  shows "w_events (process_item write w c) = w_events w @ [Attempt (c_id c)]"
  using assms by (simp add: process_item_def Let_def split: option.splits)

text \<open>
  Claim C5. Let \<open>r\<close> be a row of the queue (ids are unique) whose payload is an order,
  that is a dictionary, and \<open>c\<close> the entry claimed for it, with one attempt left:
  \<open>attempt_count + 1 = 5\<close>. When the write for \<open>c\<close> raises, \<open>process_item\<close> leaves
  the row \<open>failed\<close> with \<open>attempt_count = 5\<close> and the error stored, so it is not
  eligible any more; and after the attempt it emits the escalation once: one alert to
  each administrator in \<open>ADMINS\<close>, carrying the row id, the user id, the article and the
  shop of the payload and the error text. From then on, for any number of worker
  iterations and any behaviour of the ledger, no batch of any limit holds the row, the
  row stays as it is, and no further event about it (an attempt or an alert) occurs.
  An attempt that is not the last one (\<open>attempt_count + 1 < 5\<close>) emits no alert.
\<close>

theorem retry_exhaustion:
  assumes ids: "distinct (map q_id (w_queue w))"
    and r: "r \<in> set (w_queue w)"
    and payload: "json_loads (q_order_data r) = Some (PDict d)"
    and c: "c = \<lparr>c_id = q_id r, c_user_id = q_user_id r, c_order_data = PDict d,
                 c_attempt_count = q_attempt_count r\<rparr>"
    and last: "q_attempt_count r + 1 = MAX_ATTEMPTS"
    and fails: "write (w_clock w) c = Some error_msg"
  shows "\<exists>r'. r' \<in> set (w_queue (process_item write w c)) \<and>
           q_id r' = q_id r \<and> q_status r' = ''failed'' \<and>
           q_attempt_count r' = MAX_ATTEMPTS \<and> q_error_message r' = Some error_msg \<and>
           \<not> eligible r' \<and>
           w_events (process_item write w c) =
             w_events w @ Attempt (q_id r) #
               map (\<lambda>admin_id. AdminAlert admin_id (q_id r) (q_user_id r)
                      (case map_of d ''article'' of Some v \<Rightarrow> v | None \<Rightarrow> PStr ''N/A'')
                      (case map_of d ''selected_shop'' of Some v \<Rightarrow> v | None \<Rightarrow> PStr ''N/A'')
                      (take 300 error_msg)) ADMINS \<and>
           (\<forall>limit n write'.
              q_id r \<notin> c_id ` set (get_pending_orders limit
                                     (w_queue (process_order_queue n write' (process_item write w c)))) \<and>
              r' \<in> set (w_queue (process_order_queue n write' (process_item write w c))) \<and>
              (\<exists>new. w_events (process_order_queue n write' (process_item write w c)) =
                       w_events (process_item write w c) @ new \<and>
                     (\<forall>e \<in> set new. event_order e \<noteq> q_id r))) \<and>
           (\<forall>w0 c0 write0.
              c_attempt_count c0 + 1 < MAX_ATTEMPTS \<longrightarrow>
              w_events (process_item write0 w0 c0) = w_events w0 @ [Attempt (c_id c0)])"
proof -
  let ?w' = "process_item write w c"
  let ?r' = "set_status ''failed'' (Some error_msg) (w_clock w)
               (set_status ''processing'' None (w_clock w) r)"
  have cid: "c_id c = q_id r" using c by simp
  have in': "?r' \<in> set (w_queue ?w')"
    using r cid fails by (rule process_item_failure(1))
  have ev: "w_events ?w' =
             w_events w @ Attempt (q_id r) #
               map (\<lambda>admin_id. AdminAlert admin_id (q_id r) (q_user_id r)
                      (case map_of d ''article'' of Some v \<Rightarrow> v | None \<Rightarrow> PStr ''N/A'')
                      (case map_of d ''selected_shop'' of Some v \<Rightarrow> v | None \<Rightarrow> PStr ''N/A'')
                      (take 300 error_msg)) ADMINS"
    using process_item_failure(2) [of r w c "write" error_msg] r cid fails c last
    by (simp add: final_alerts_dict max_retries_def MAX_ATTEMPTS_def)
  have props: "q_id ?r' = q_id r" "q_status ?r' = ''failed''"
    "q_attempt_count ?r' = MAX_ATTEMPTS" "q_error_message ?r' = Some error_msg"
    using last by (simp_all add: set_status_def)
  have ne: "\<not> eligible ?r'"
    using props by (simp add: eligible_def)
  have ids': "distinct (map q_id (w_queue ?w'))"
    using ids by (simp add: process_item_ids)
  have after: "\<forall>limit n write'.
              q_id r \<notin> c_id ` set (get_pending_orders limit
                                     (w_queue (process_order_queue n write' ?w'))) \<and>
              ?r' \<in> set (w_queue (process_order_queue n write' ?w')) \<and>
              (\<exists>new. w_events (process_order_queue n write' ?w') = w_events ?w' @ new \<and>
                     (\<forall>e \<in> set new. event_order e \<noteq> q_id r))"
  proof (intro allI)
    fix limit n write'
    let ?wn = "process_order_queue n write' ?w'"
    have u: "?r' \<in> set (w_queue ?wn) \<and>
             (\<exists>new. w_events ?wn = w_events ?w' @ new \<and>
                (\<forall>e \<in> set new. event_order e \<noteq> q_id ?r'))"
      using run_untouched [OF ids' in'] ne by blast
    have dn: "distinct (map q_id (w_queue ?wn))" using ids' by (simp add: run_ids)
    have "q_id ?r' \<notin> c_id ` set (get_pending_orders limit (w_queue ?wn))"
      using never_returned [OF dn] u ne by blast
    with u props(1) show "q_id r \<notin> c_id ` set (get_pending_orders limit (w_queue ?wn)) \<and>
              ?r' \<in> set (w_queue ?wn) \<and>
              (\<exists>new. w_events ?wn = w_events ?w' @ new \<and>
                     (\<forall>e \<in> set new. event_order e \<noteq> q_id r))"
      by simp
  qed
  have before: "\<forall>w0 c0 write0.
              c_attempt_count c0 + 1 < MAX_ATTEMPTS \<longrightarrow>
              w_events (process_item write0 w0 c0) = w_events w0 @ [Attempt (c_id c0)]"
    using process_item_no_alert by (simp add: MAX_ATTEMPTS_def max_retries_def)
  show ?thesis
    using in' props ne ev after before by blast
qed


theorem retry_exhaustion_witness:
  "distinct (map q_id (w_queue last_chance_worker)) \<and>
   last_chance_row \<in> set (w_queue last_chance_worker) \<and>
   json_loads (q_order_data last_chance_row) = Some (PDict sample_order) \<and>
   q_attempt_count last_chance_row + 1 = MAX_ATTEMPTS \<and>
   w_events (process_item always_fails last_chance_worker
      \<lparr>c_id = 1, c_user_id = 101, c_order_data = PDict sample_order, c_attempt_count = 4\<rparr>) =
     [Attempt 1,
      AdminAlert 122086799 1 101 (PStr ''12345'') (PStr ''7'') ''boom'',
      AdminAlert 5183727015 1 101 (PStr ''12345'') (PStr ''7'') ''boom''] \<and>
   (\<forall>limit n write'.
      1 \<notin> c_id ` set (get_pending_orders limit
        (w_queue (process_order_queue n write'
           (process_item always_fails last_chance_worker
              \<lparr>c_id = 1, c_user_id = 101, c_order_data = PDict sample_order,
               c_attempt_count = 4\<rparr>)))))"
proof -
  let ?c = "\<lparr>c_id = 1, c_user_id = 101, c_order_data = PDict sample_order,
             c_attempt_count = 4\<rparr>"
  have h1: "distinct (map q_id (w_queue last_chance_worker))"
    by (simp add: last_chance_worker_def)
  have h2: "last_chance_row \<in> set (w_queue last_chance_worker)"
    by (simp add: last_chance_worker_def)
  have h3: "json_loads (q_order_data last_chance_row) = Some (PDict sample_order)"
    by (simp add: last_chance_row_def good_row_def sample_row_def sample_order_roundtrip)
  have h4: "?c = \<lparr>c_id = q_id last_chance_row, c_user_id = q_user_id last_chance_row,
                   c_order_data = PDict sample_order,
                   c_attempt_count = q_attempt_count last_chance_row\<rparr>"
    by (simp add: last_chance_row_def good_row_def sample_row_def)
  have h5: "q_attempt_count last_chance_row + 1 = MAX_ATTEMPTS"
    by (simp add: last_chance_row_def MAX_ATTEMPTS_def)
  have h6: "always_fails (w_clock last_chance_worker) ?c = Some ''boom''"
    by (simp add: always_fails_def)
  have ids: "q_id last_chance_row = 1" "q_user_id last_chance_row = 101"
    by (simp_all add: last_chance_row_def good_row_def sample_row_def)
  have ev: "w_events last_chance_worker = []" by (simp add: last_chance_worker_def)
  from retry_exhaustion [of last_chance_worker last_chance_row sample_order ?c always_fails
      "''boom''"] h1 h2 h3 h4 h5 h6
  obtain r' where r':
    "w_events (process_item always_fails last_chance_worker ?c) =
       w_events last_chance_worker @ Attempt (q_id last_chance_row) #
         map (\<lambda>admin_id. AdminAlert admin_id (q_id last_chance_row) (q_user_id last_chance_row)
                (case map_of sample_order ''article'' of Some v \<Rightarrow> v | None \<Rightarrow> PStr ''N/A'')
                (case map_of sample_order ''selected_shop'' of Some v \<Rightarrow> v | None \<Rightarrow> PStr ''N/A'')
                (take 300 ''boom'')) ADMINS"
    "\<forall>limit n write'.
       q_id last_chance_row \<notin> c_id ` set (get_pending_orders limit
         (w_queue (process_order_queue n write'
            (process_item always_fails last_chance_worker ?c))))"
    by blast
  have "w_events (process_item always_fails last_chance_worker ?c) =
     [Attempt 1,
      AdminAlert 122086799 1 101 (PStr ''12345'') (PStr ''7'') ''boom'',
      AdminAlert 5183727015 1 101 (PStr ''12345'') (PStr ''7'') ''boom'']"
    using r'(1) by (simp add: ids ev ADMINS_def sample_order_def)
  with h1 h2 h3 h5 r'(2) ids show ?thesis by simp
qed

text \<open>The scenario of a fresh order whose write raises every time: five attempts, then
  the alerts, and the sixth iteration claims nothing.\<close>

lemma five_failures_scenario:
  "w_events (process_order_queue 5 always_fails fresh_worker) =
     [Attempt 1, Attempt 1, Attempt 1, Attempt 1, Attempt 1,
      AdminAlert 122086799 1 101 (PStr ''12345'') (PStr ''7'') ''boom'',
      AdminAlert 5183727015 1 101 (PStr ''12345'') (PStr ''7'') ''boom'']"
  "map q_status (w_queue (process_order_queue 5 always_fails fresh_worker)) = [''failed'']"
  "map q_attempt_count (w_queue (process_order_queue 5 always_fails fresh_worker)) = [5]"
  "get_pending_orders 5 (w_queue (process_order_queue 5 always_fails fresh_worker)) = []"
  by (simp_all add: eval_nat_numeral fresh_worker_def always_fails_def worker_cycle_def
      get_pending_orders_def select_pending_def sql_limit_def eligible_def MAX_ATTEMPTS_def
      good_row_def sample_row_def sample_order_roundtrip process_item_def Let_def
      update_order_status_def set_status_def max_retries_def final_alerts_def ADMINS_def
      json_dumps_def dict_of_pairs_def sample_order_def)

section \<open>Enqueueing a finalised order\<close>

lemma fold_max_ge: "a \<le> fold max xs (a::int)"
  by (induction xs arbitrary: a) (auto intro: order_trans [OF max.cobounded2])

lemma fold_max_ge_elem: "x \<in> set xs \<Longrightarrow> x \<le> fold max xs (a::int)"
proof (induction xs arbitrary: a)
  case Nil
  then show ?case by simp
next
  case (Cons y ys)
  show ?case
  proof (cases "x = y")
    case True
    have "y \<le> max y a" by simp
    also have "\<dots> \<le> fold max ys (max y a)" by (rule fold_max_ge)
    finally show ?thesis using True by simp
  next
    case False
    with Cons.prems have "x \<in> set ys" by simp
    then show ?thesis using Cons.IH by simp
  qed
qed

lemma next_rowid_fresh: "next_rowid q \<notin> q_id ` set q"
proof
  assume "next_rowid q \<in> q_id ` set q"
  then have "next_rowid q \<in> set (map q_id q)" by simp
  then have "next_rowid q \<le> fold max (map q_id q) 0" by (rule fold_max_ge_elem)
  then show False by (simp add: next_rowid_def)
qed

lemma add_order_to_queue_result:
  "(snd (add_order_to_queue db_ok user_id order_data now q) \<longrightarrow>
      (\<exists>row. fst (add_order_to_queue db_ok user_id order_data now q) = q @ [row] \<and>
         q_status row = ''pending'' \<and> q_user_id row = user_id \<and>
         q_order_data row = json_dumps (PDict order_data) \<and> q_attempt_count row = 0 \<and>
         q_created_at row = now \<and> q_id row \<notin> q_id ` set q \<and> eligible row)) \<and>
   (\<not> snd (add_order_to_queue db_ok user_id order_data now q) \<longrightarrow>
      fst (add_order_to_queue db_ok user_id order_data now q) = q)"
  using next_rowid_fresh [of q]
  by (simp add: add_order_to_queue_def eligible_def)

lemma final_confirmation_complete:
  assumes "\<forall>field \<in> set required_fields. map_of data field \<noteq> None"
    and "data = dict_set ''last_activity'' (PStr stamp) (state_get_data user_id s)"
  shows "final_confirmation user_id stamp db_ok now s =
           (let s2 = reply user_id OrderSent (state_set_data user_id data s);
                alert = EnqueueFailed user_id
                          (case map_of data ''article'' of Some v \<Rightarrow> v | None \<Rightarrow> PStr ''N/A'')
                          (case map_of data ''selected_shop'' of
                             Some v \<Rightarrow> v | None \<Rightarrow> PStr ''N/A'')
            in if db_ok
               then state_clear user_id
                      (s2\<lparr>queue := fst (add_order_to_queue True user_id data now (queue s))\<rparr>)
               else state_clear user_id
                      (foldl (\<lambda>st admin_id. reply admin_id alert st)
                         (s2\<lparr>queue := queue s, critical_log := critical_log s @ [alert]\<rparr>)
                         ADMINS))"
proof -
  have "filter (\<lambda>field. map_of data field = None) required_fields = []"
    using assms(1) by (simp add: filter_empty_conv)
  then show ?thesis
    using assms(2)
    by (simp add: final_confirmation_def Let_def state_update_data_def state_set_data_def
        state_get_data_def reply_def add_order_to_queue_def)
qed

text \<open>
  Claim C9. Let \<open>data\<close> be the session data of a finalised order (every required field
  is there), as \<open>final_confirmation\<close> reads it. \<open>add_order_to_queue\<close> either returns
  \<open>True\<close>, and then the queue is the old one with one more row at the end, \<open>pending\<close>,
  with a fresh id, zero attempts and the serialised order as payload, and
  \<open>final_confirmation\<close> leaves exactly that queue and raises no alert; or it returns
  \<open>False\<close>, the queue is unchanged, and \<open>final_confirmation\<close> writes the critical log
  entry and sends, right after the reply to the user, one alert to every administrator
  of \<open>ADMINS\<close>, naming the user, the article and the shop of the lost order. Nothing
  conditions the alert but the failure.
\<close>

theorem enqueue_never_silent:
  assumes "\<forall>field \<in> set required_fields. map_of data field \<noteq> None"
    and "data = dict_set ''last_activity'' (PStr stamp) (state_get_data user_id s)"
  shows "(snd (add_order_to_queue db_ok user_id data now (queue s)) \<longrightarrow>
            (\<exists>row. fst (add_order_to_queue db_ok user_id data now (queue s)) = queue s @ [row] \<and>
               q_status row = ''pending'' \<and> q_user_id row = user_id \<and>
               q_order_data row = json_dumps (PDict data) \<and> q_attempt_count row = 0 \<and>
               q_id row \<notin> q_id ` set (queue s) \<and> eligible row) \<and>
            queue (final_confirmation user_id stamp db_ok now s) =
              fst (add_order_to_queue db_ok user_id data now (queue s)) \<and>
            critical_log (final_confirmation user_id stamp db_ok now s) = critical_log s \<and>
            outbox (final_confirmation user_id stamp db_ok now s) =
              outbox s @ [(user_id, OrderSent)]) \<and>
         (\<not> snd (add_order_to_queue db_ok user_id data now (queue s)) \<longrightarrow>
            (\<exists>article shop.
               map_of data ''article'' = Some article \<and>
               map_of data ''selected_shop'' = Some shop \<and>
               queue (final_confirmation user_id stamp db_ok now s) = queue s \<and>
               critical_log (final_confirmation user_id stamp db_ok now s) =
                 critical_log s @ [EnqueueFailed user_id article shop] \<and>
               outbox (final_confirmation user_id stamp db_ok now s) =
                 outbox s @ (user_id, OrderSent) #
                   map (\<lambda>admin_id. (admin_id, EnqueueFailed user_id article shop)) ADMINS))"
proof -
  obtain article shop where f: "map_of data ''article'' = Some article"
    "map_of data ''selected_shop'' = Some shop"
    using assms(1) by (auto simp: required_fields_def)
  have fc: "final_confirmation user_id stamp db_ok now s =
           (let s2 = reply user_id OrderSent (state_set_data user_id data s);
                alert = EnqueueFailed user_id article shop
            in if db_ok
               then state_clear user_id
                      (s2\<lparr>queue := fst (add_order_to_queue True user_id data now (queue s))\<rparr>)
               else state_clear user_id
                      (foldl (\<lambda>st admin_id. reply admin_id alert st)
                         (s2\<lparr>queue := queue s, critical_log := critical_log s @ [alert]\<rparr>)
                         ADMINS))"
    using final_confirmation_complete [OF assms] f by simp
  show ?thesis
    unfolding fc
    using next_rowid_fresh [of "queue s"] f
    by (cases db_ok)
      (simp_all add: Let_def state_clear_def reply_def state_set_data_def
        add_order_to_queue_def ADMINS_def eligible_def)
qed


theorem enqueue_never_silent_witness:
  "filter (\<lambda>field. map_of (dict_set ''last_activity'' (PStr ''2024-01-01T10:00:00'')
                             (state_get_data 7 confirming_bot)) field = None)
      required_fields = [] \<and>
   \<not> snd (add_order_to_queue False 7
            (dict_set ''last_activity'' (PStr ''2024-01-01T10:00:00'')
               (state_get_data 7 confirming_bot)) 50 (queue confirming_bot)) \<and>
   queue (final_confirmation 7 ''2024-01-01T10:00:00'' False 50 confirming_bot) = [] \<and>
   critical_log (final_confirmation 7 ''2024-01-01T10:00:00'' False 50 confirming_bot) =
     [EnqueueFailed 7 (PStr ''12345'') (PStr ''7'')] \<and>
   outbox (final_confirmation 7 ''2024-01-01T10:00:00'' False 50 confirming_bot) =
     [(7, OrderSent),
      (122086799, EnqueueFailed 7 (PStr ''12345'') (PStr ''7'')),
      (5183727015, EnqueueFailed 7 (PStr ''12345'') (PStr ''7''))]"
proof -
  let ?data = "dict_set ''last_activity'' (PStr ''2024-01-01T10:00:00'')
                 (state_get_data 7 confirming_bot)"
  have d: "state_get_data 7 confirming_bot = sample_order"
    by (simp add: state_get_data_def confirming_bot_def empty_bot_def)
  have h1: "\<forall>field \<in> set required_fields. map_of ?data field \<noteq> None"
    by (simp add: d required_fields_def map_of_dict_set sample_order_def)
  have h2: "\<not> snd (add_order_to_queue False 7 ?data 50 (queue confirming_bot))"
    by (simp add: add_order_to_queue_def)
  have a: "map_of ?data ''article'' = Some (PStr ''12345'')"
    "map_of ?data ''selected_shop'' = Some (PStr ''7'')"
    by (simp_all add: d map_of_dict_set sample_order_def)
  have e: "queue confirming_bot = []" "critical_log confirming_bot = []"
    "outbox confirming_bot = []"
    by (simp_all add: confirming_bot_def empty_bot_def)
  from enqueue_never_silent [of ?data "''2024-01-01T10:00:00''" 7 confirming_bot False 50]
    h1 h2 a e
  have "queue (final_confirmation 7 ''2024-01-01T10:00:00'' False 50 confirming_bot) = [] \<and>
   critical_log (final_confirmation 7 ''2024-01-01T10:00:00'' False 50 confirming_bot) =
     [EnqueueFailed 7 (PStr ''12345'') (PStr ''7'')] \<and>
   outbox (final_confirmation 7 ''2024-01-01T10:00:00'' False 50 confirming_bot) =
     [(7, OrderSent),
      (122086799, EnqueueFailed 7 (PStr ''12345'') (PStr ''7'')),
      (5183727015, EnqueueFailed 7 (PStr ''12345'') (PStr ''7''))]"
    by (simp add: ADMINS_def)
  moreover have "filter (\<lambda>field. map_of ?data field = None) required_fields = []"
    using h1 by (simp add: filter_empty_conv)
  ultimately show ?thesis using h2 by blast
qed

section \<open>The snapshot round trip\<close>










section \<open>The gate and its rollback\<close>

lemma gate_send_failed:
  assumes "0 < n"
    and "map_of (state_get_data user_id s) ''article'' = Some article"
    and "map_of (state_get_data user_id s) ''selected_shop'' = Some selected_shop"
    and "p_top info = ''0''"
    and "directory (p_department info) = Some manager_info"
    and "requests s request_id = None"
  shows "\<exists>s'. process_quantity_input user_id (Inr n) (Some info) directory request_id None True
                now s = Inr s' \<and>
              requests s' = requests s \<and>
              outbox s' = outbox s @ [(user_id, ManagerSendFailed)] \<and>
              fsm s' user_id = \<lparr>fsm_state = None, fsm_data = []\<rparr> \<and>
              queue s' = queue s"
  using assms
  by (simp add: gate_defs map_of_dict_set fun_upd_idem)

lemma gate_other_requests:
  assumes "process_quantity_input user_id quantity product_info directory request_id sent
             error_reply_ok now s = Inr s'"
    and "rid \<noteq> request_id"
  shows "requests s' rid = requests s rid"
  using assms
  by (auto simp: gate_defs split: sum.splits option.splits if_splits prod.splits)

lemma gate_no_orphan:
  assumes "process_quantity_input user_id quantity product_info directory request_id sent
             error_reply_ok now s = Inr s'"
    and "requests s request_id = None"
    and "requests s' request_id = Some r"
  shows "\<exists>message_id n.
           sent = Some message_id \<and> r_manager_message_id r = Some message_id \<and>
           quantity = Inr n \<and>
           r_status r = ''pending'' \<and> r_user_id r = user_id \<and>
           (r_manager_id r,
            ApprovalNeeded request_id user_id (r_shop r) (r_article r) (r_product_name r) n
              (r_product_supplier r) (r_department r)) \<in> set (outbox s')"
  using assms
  by (auto simp: gate_defs split: sum.splits option.splits if_splits prod.splits)

lemma gate_not_sent:
  assumes "process_quantity_input user_id quantity product_info directory request_id None
             error_reply_ok now s = Inr s'"
    and "requests s request_id = None"
  shows "requests s' = requests s"
  using assms
  by (auto simp: gate_defs fun_upd_idem split: sum.splits option.splits if_splits prod.splits)

lemma gate_sent:
  assumes "0 < n"
    and "map_of (state_get_data user_id s) ''article'' = Some article"
    and "map_of (state_get_data user_id s) ''selected_shop'' = Some selected_shop"
    and "p_top info = ''0''"
    and "directory (p_department info) = Some manager_info"
    and "requests s request_id = None"
  shows "\<exists>s' r. process_quantity_input user_id (Inr n) (Some info) directory request_id
                  (Some message_id) error_reply_ok now s = Inr s' \<and>
              requests s' request_id = Some r \<and> r_status r = ''pending'' \<and>
              r_manager_id r = m_id manager_info \<and>
              r_manager_message_id r = Some message_id"
  using assms
  by (simp add: gate_defs map_of_dict_set)

text \<open>When the handler returns, a request that is in the table under the fresh id is
  \<open>pending\<close>, carries the handle of the notification, and that notification is in the
  outbox; when the notification was not sent, the table is unchanged.\<close>

lemma gate_returned:
  assumes "process_quantity_input user_id quantity product_info directory request_id sent
             error_reply_ok now s = Inr s'"
    and "requests s request_id = None"
  shows "(sent = None \<longrightarrow> requests s' = requests s) \<and>
         (\<forall>rid. rid \<noteq> request_id \<longrightarrow> requests s' rid = requests s rid) \<and>
         (\<forall>r. requests s' request_id = Some r \<longrightarrow>
            (\<exists>message_id k.
               sent = Some message_id \<and> r_manager_message_id r = Some message_id \<and>
               quantity = Inr k \<and> r_status r = ''pending'' \<and> r_user_id r = user_id \<and>
               (r_manager_id r,
                ApprovalNeeded request_id user_id (r_shop r) (r_article r)
                  (r_product_name r) k (r_product_supplier r) (r_department r))
                 \<in> set (outbox s')))"
proof (intro conjI allI impI)
  assume "sent = None"
  with assms show "requests s' = requests s" using gate_not_sent by blast
next
  fix rid :: string assume "rid \<noteq> request_id"
  with assms(1) show "requests s' rid = requests s rid" by (rule gate_other_requests)
next
  fix r assume "requests s' request_id = Some r"
  with assms show "\<exists>message_id k.
               sent = Some message_id \<and> r_manager_message_id r = Some message_id \<and>
               quantity = Inr k \<and> r_status r = ''pending'' \<and> r_user_id r = user_id \<and>
               (r_manager_id r,
                ApprovalNeeded request_id user_id (r_shop r) (r_article r)
                  (r_product_name r) k (r_product_supplier r) (r_department r))
                 \<in> set (outbox s')"
    by (rule gate_no_orphan)
qed

text \<open>The notification fails and the error reply raises: the handler is left before the
  deletion, with the new request in the table and no message sent.\<close>

lemma gate_reply_raises:
  assumes "0 < n"
    and "map_of (state_get_data user_id s) ''article'' = Some article"
    and "map_of (state_get_data user_id s) ''selected_shop'' = Some selected_shop"
    and "p_top info = ''0''"
    and "directory (p_department info) = Some manager_info"
    and "requests s request_id = None"
  shows "\<exists>s' r. process_quantity_input user_id (Inr n) (Some info) directory request_id None False
                  now s = Inl (TelegramError, s') \<and>
              requests s' request_id = Some r \<and> r_status r = ''pending'' \<and>
              r_user_id r = user_id \<and> r_manager_id r = m_id manager_info \<and>
              r_manager_message_id r = None \<and> outbox s' = outbox s"
  using assms
  by (simp add: gate_defs map_of_dict_set)

text \<open>
  Claim C8 does not hold on the code. When the notification to the approver fails, the
  \<open>except\<close> branch of \<open>process_quantity_input\<close> first replies the error to the
  requester and only then deletes the request. The reply is not guarded: when it
  raises as well (the messaging service is out of reach for both), the deletion is
  never reached and the request just created stays in the table, \<open>pending\<close>, with no
  message handle, no notification to its approver and no error shown to the
  requester. When the reply returns, the request is deleted as the claim says.
\<close>

theorem gate_rollback_skipped_when_reply_raises:
  "requests ordering_bot ''r1'' = None \<and>
   isl (process_quantity_input 7 (Inr 2) (Some sample_info) sample_directory ''r1'' None False 50
          ordering_bot) \<and>
   fst (projl (process_quantity_input 7 (Inr 2) (Some sample_info) sample_directory ''r1'' None
                 False 50 ordering_bot)) = TelegramError \<and>
   map_option r_status
     (requests (snd (projl (process_quantity_input 7 (Inr 2) (Some sample_info) sample_directory
                              ''r1'' None False 50 ordering_bot))) ''r1'') = Some ''pending'' \<and>
   map_option r_manager_id
     (requests (snd (projl (process_quantity_input 7 (Inr 2) (Some sample_info) sample_directory
                              ''r1'' None False 50 ordering_bot))) ''r1'') = Some 9 \<and>
   map_option r_manager_message_id
     (requests (snd (projl (process_quantity_input 7 (Inr 2) (Some sample_info) sample_directory
                              ''r1'' None False 50 ordering_bot))) ''r1'') = Some None \<and>
   outbox (snd (projl (process_quantity_input 7 (Inr 2) (Some sample_info) sample_directory
                         ''r1'' None False 50 ordering_bot))) = [] \<and>
   requests (projr (process_quantity_input 7 (Inr 2) (Some sample_info) sample_directory ''r1''
                      None True 50 ordering_bot)) ''r1'' = None \<and>
   outbox (projr (process_quantity_input 7 (Inr 2) (Some sample_info) sample_directory ''r1''
                    None True 50 ordering_bot)) = [(7, ManagerSendFailed)]"
proof -
  let ?manager = "\<lparr>m_id = 9, m_first_name = ''Bob'', m_last_name = ''Lee'', m_department = ''5''\<rparr>"
  have h1: "(0::int) < 2" by simp
  have h2: "map_of (state_get_data 7 ordering_bot) ''article'' = Some (PStr ''12345'')"
    by (simp add: state_get_data_def ordering_bot_def empty_bot_def)
  have h3: "map_of (state_get_data 7 ordering_bot) ''selected_shop'' = Some (PStr ''7'')"
    by (simp add: state_get_data_def ordering_bot_def empty_bot_def)
  have h4: "p_top sample_info = ''0''" by (simp add: sample_info_def)
  have h5: "sample_directory (p_department sample_info) = Some ?manager"
    by (simp add: sample_directory_def sample_info_def)
  have h6: "requests ordering_bot ''r1'' = None"
    by (simp add: ordering_bot_def empty_bot_def)
  have e: "outbox ordering_bot = []" by (simp add: ordering_bot_def empty_bot_def)
  from gate_reply_raises [where n = 2 and user_id = 7 and s = ordering_bot
      and info = sample_info and directory = sample_directory and request_id = "''r1''"
      and now = 50] h1 h2 h3 h4 h5 h6
  obtain s' r where raised:
    "process_quantity_input 7 (Inr 2) (Some sample_info) sample_directory ''r1'' None False 50
       ordering_bot = Inl (TelegramError, s')"
    "requests s' ''r1'' = Some r" "r_status r = ''pending''" "r_manager_id r = m_id ?manager"
    "r_manager_message_id r = None" "outbox s' = outbox ordering_bot"
    by blast
  from gate_send_failed [where n = 2 and user_id = 7 and s = ordering_bot
      and info = sample_info and directory = sample_directory and request_id = "''r1''"
      and now = 50] h1 h2 h3 h4 h5 h6
  obtain s'' where returned:
    "process_quantity_input 7 (Inr 2) (Some sample_info) sample_directory ''r1'' None True 50
       ordering_bot = Inr s''"
    "requests s'' = requests ordering_bot"
    "outbox s'' = outbox ordering_bot @ [(7, ManagerSendFailed)]"
    by blast
  from raised returned h6 e show ?thesis by simp
qed

section \<open>The decision guard\<close>

lemma approval_guard:
  assumes "requests s request_id = None \<or>
           (\<exists>r. requests s request_id = Some r \<and>
                (r_manager_id r \<noteq> actor \<or> r_status r \<noteq> ''pending''))"
  shows "handle_manager_approval action request_id actor user_send_ok edit_ok now s =
           s\<lparr>outbox := outbox s @
               (case requests s request_id of
                  None \<Rightarrow> [(actor, RequestNotFound)]
                | Some r \<Rightarrow>
                    if r_manager_id r \<noteq> actor then [(actor, NotYourRequest)]
                    else (actor, AlreadyDecided (r_status r)) #
                         (if edit_ok
                          then [(actor, EditStatusAlreadyChanged (r_status r = ''approved''))]
                          else []))\<rparr>"
  using assms by (auto simp: resume_defs)

lemma reject_comment_guard:
  assumes "requests s request_id = None \<or>
           (\<exists>r. requests s request_id = Some r \<and>
                (r_manager_id r \<noteq> actor \<or> r_status r \<noteq> ''pending''))"
    and "strip t \<noteq> []"
    and "map_of (state_get_data actor s) ''current_reject_request_id'' = Some (PStr request_id)"
    and "request_id \<noteq> []"
  shows "handle_manager_reject_comment actor (Some t) user_send_ok directory now s =
           Inr (s\<lparr>outbox := outbox s @
                    [(actor,
                      case requests s request_id of
                        None \<Rightarrow> RequestNotFound
                      | Some r \<Rightarrow>
                          if r_manager_id r \<noteq> actor then NotYourRequest
                          else AlreadyDecidedText (r_status r = ''approved''))],
                  fsm := (fsm s)(actor := \<lparr>fsm_state = None, fsm_data = []\<rparr>)\<rparr>)"
  using assms by (auto simp: resume_defs)


text \<open>
  Claim C4, as amended. Let a decision refer to a request that is absent, or assigned to
  another approver than the acting one, or not pending. \<open>handle_manager_approval\<close>
  (approve and start-reject) then returns the state it was given with only messages
  added: the report of the condition (not found; not yours; already decided, with the
  status) and, in the last case, the edit of the approver's message when that succeeds.
  \<open>handle_manager_reject_comment\<close>, for a non-empty comment of an approver whose
  session refers to that request, returns the state with the report added and with the
  acting approver's own session cleared; the requests, the queue and the sessions of all
  other users are as before.
\<close>

theorem decision_guard:
  assumes "requests s request_id = None \<or>
           (\<exists>r. requests s request_id = Some r \<and>
                (r_manager_id r \<noteq> actor \<or> r_status r \<noteq> ''pending''))"
  shows "handle_manager_approval action request_id actor user_send_ok edit_ok now s =
           s\<lparr>outbox := outbox s @
               (case requests s request_id of
                  None \<Rightarrow> [(actor, RequestNotFound)]
                | Some r \<Rightarrow>
                    if r_manager_id r \<noteq> actor then [(actor, NotYourRequest)]
                    else (actor, AlreadyDecided (r_status r)) #
                         (if edit_ok
                          then [(actor, EditStatusAlreadyChanged (r_status r = ''approved''))]
                          else []))\<rparr> \<and>
         (strip t \<noteq> [] \<and>
          map_of (state_get_data actor s) ''current_reject_request_id'' =
            Some (PStr request_id) \<and>
          request_id \<noteq> [] \<longrightarrow>
          handle_manager_reject_comment actor (Some t) user_send_ok' directory now s =
            Inr (s\<lparr>outbox := outbox s @
                     [(actor,
                       case requests s request_id of
                         None \<Rightarrow> RequestNotFound
                       | Some r \<Rightarrow>
                           if r_manager_id r \<noteq> actor then NotYourRequest
                           else AlreadyDecidedText (r_status r = ''approved''))],
                   fsm := (fsm s)(actor := \<lparr>fsm_state = None, fsm_data = []\<rparr>)\<rparr>))"
  using approval_guard [OF assms] reject_comment_guard [OF assms]
  by blast

theorem decision_guard_witness:
  "(requests (awaiting_comment_bot ''approved'') ''r1'' = None \<or>
    (\<exists>r. requests (awaiting_comment_bot ''approved'') ''r1'' = Some r \<and>
         (r_manager_id r \<noteq> 9 \<or> r_status r \<noteq> ''pending''))) \<and>
   handle_manager_approval ''approve'' ''r1'' 9 True True 60 (awaiting_comment_bot ''approved'') =
     (awaiting_comment_bot ''approved'')
       \<lparr>outbox := [(9, AlreadyDecided ''approved''), (9, EditStatusAlreadyChanged True)]\<rparr>"
proof -
  have h: "requests (awaiting_comment_bot ''approved'') ''r1'' = None \<or>
    (\<exists>r. requests (awaiting_comment_bot ''approved'') ''r1'' = Some r \<and>
         (r_manager_id r \<noteq> 9 \<or> r_status r \<noteq> ''pending''))"
    by (simp add: awaiting_comment_bot_def sample_request_def)
  have r: "requests (awaiting_comment_bot ''approved'') ''r1'' =
             Some (sample_request ''approved'')"
    "outbox (awaiting_comment_bot ''approved'') = []"
    by (simp_all add: awaiting_comment_bot_def empty_bot_def)
  from decision_guard [OF h, of "''approve''" True True 60] r
  have "handle_manager_approval ''approve'' ''r1'' 9 True True 60
          (awaiting_comment_bot ''approved'') =
     (awaiting_comment_bot ''approved'')
       \<lparr>outbox := [(9, AlreadyDecided ''approved''), (9, EditStatusAlreadyChanged True)]\<rparr>"
    by (simp add: sample_request_def)
  with h show ?thesis by blast
qed

text \<open>Claim C4 as stated, with no change of any session, fails for the comment of a
  rejection that comes after the request was approved: the approver's own session is
  cleared.\<close>

theorem reject_comment_guard_clears_session:
  "map_option r_status (requests (awaiting_comment_bot ''approved'') ''r1'') = Some ''approved'' \<and>
   \<not> isl (handle_manager_reject_comment 9 (Some ''too late'') True sample_directory 60
            (awaiting_comment_bot ''approved'')) \<and>
   requests (projr (handle_manager_reject_comment 9 (Some ''too late'') True sample_directory 60
                     (awaiting_comment_bot ''approved''))) =
     requests (awaiting_comment_bot ''approved'') \<and>
   fsm (awaiting_comment_bot ''approved'') 9 =
     \<lparr>fsm_state = Some awaiting_reject_comment,
      fsm_data = [(''current_reject_request_id'', PStr ''r1'')]\<rparr> \<and>
   fsm (projr (handle_manager_reject_comment 9 (Some ''too late'') True sample_directory 60
                (awaiting_comment_bot ''approved''))) 9 =
     \<lparr>fsm_state = None, fsm_data = []\<rparr> \<and>
   fsm (projr (handle_manager_reject_comment 9 (Some ''too late'') True sample_directory 60
                (awaiting_comment_bot ''approved''))) 9 \<noteq>
     fsm (awaiting_comment_bot ''approved'') 9"
  by (simp add: resume_defs awaiting_comment_bot_def sample_request_def empty_bot_def
      strip_def is_space_def)

section \<open>The life of a request row\<close>

lemma approve_sets_approved:
  assumes "requests s request_id = Some r" and "r_status r = ''pending''"
  shows "requests (handle_manager_approval ''approve'' request_id (r_manager_id r)
                     user_send_ok edit_ok now s) =
           (requests s)(request_id \<mapsto> r\<lparr>r_status := ''approved'', r_updated_at := now\<rparr>)"
    and "user_send_ok \<longrightarrow>
           (r_user_id r, OrderApproved request_id (r_article r) (r_product_name r) (r_shop r))
             \<in> set (outbox (handle_manager_approval ''approve'' request_id (r_manager_id r)
                                user_send_ok edit_ok now s))"
  using assms by (auto simp: resume_defs)

lemma continue_deletes:
  assumes "requests s request_id = Some r" and "r_status r = ''approved''"
  shows "requests (handle_continue_order request_id (r_user_id r) resume_ok s) =
           (requests s)(request_id := None)"
  using assms by (auto simp: resume_defs split: pyval.splits)

lemma reject_keeps_row:
  assumes "requests s request_id = Some r" and "r_status r = ''pending''"
    and "strip t \<noteq> []"
    and "map_of (state_get_data (r_manager_id r) s) ''current_reject_request_id'' =
           Some (PStr request_id)"
    and "request_id \<noteq> []"
  shows "\<exists>s'. handle_manager_reject_comment (r_manager_id r) (Some t) user_send_ok directory now s
               = Inr s' \<and>
              requests s' =
                (requests s)(request_id \<mapsto>
                   r\<lparr>r_status := ''rejected'', r_updated_at := now,
                     r_reject_comment := Some (strip t)\<rparr>) \<and>
              (user_send_ok \<longrightarrow>
                 (r_user_id r,
                  OrderRejected (rejecting_manager_name directory (r_department r)) (r_article r)
                    (r_shop r) (r_product_name r) (strip t)) \<in> set (outbox s'))"
  using assms by (auto simp: resume_defs)

lemma rejected_kept_approval:
  assumes "requests s request_id = Some r" and "r_status r = ''rejected''"
  shows "requests (handle_manager_approval action rid actor user_send_ok edit_ok now s)
           request_id = Some r"
  using assms by (auto simp: resume_defs split: option.splits)

lemma rejected_kept_continue:
  assumes "requests s request_id = Some r" and "r_status r = ''rejected''"
  shows "requests (handle_continue_order rid user_id resume_ok s) request_id = Some r"
  using assms by (auto simp: resume_defs split: option.splits pyval.splits)

lemma rejected_kept_comment:
  assumes "requests s request_id = Some r" and "r_status r = ''rejected''"
    and "handle_manager_reject_comment actor text user_send_ok directory now s = Inr s'"
  shows "requests s' request_id = Some r"
  using assms by (auto simp: resume_defs split: option.splits pyval.splits if_splits)

lemma rejected_kept_gate:
  assumes "requests s request_id = Some r" and "r_status r = ''rejected''"
    and "process_quantity_input user_id quantity product_info directory rid sent
           error_reply_ok now s = Inr s'"
  shows "requests s' request_id = Some r"
  using assms
  by (auto simp: gate_defs split: sum.splits option.splits if_splits prod.splits)

lemma rejected_kept_final:
  assumes "requests s request_id = Some r"
  shows "requests (final_confirmation user_id stamp db_ok now s) request_id = Some r"
proof -
  have "\<And>st admins alert. requests (foldl (\<lambda>st admin_id. reply admin_id alert st) st admins) =
          requests st"
  proof -
    fix st :: bot and admins :: "int list" and alert
    show "requests (foldl (\<lambda>st admin_id. reply admin_id alert st) st admins) = requests st"
      by (induction admins arbitrary: st) (simp_all add: reply_def)
  qed
  then show ?thesis
    using assms
    by (simp add: final_confirmation_def Let_def state_update_data_def state_set_data_def
        state_get_data_def state_clear_def reply_def split: prod.splits)
qed


text \<open>
  Claim C2. Let \<open>r\<close> be a pending request. Approve path: when its approver approves,
  the status becomes \<open>approved\<close> and, when the message goes out, the requester receives
  the notice with the action that resumes the order; when the requester then resumes,
  \<open>handle_continue_order\<close> deletes the row, whether or not the session could be
  restored, and leaves the other requests alone. Reject path: when its approver sends a
  non-empty reason, the row stays in the table with the status \<open>rejected\<close> and the
  reason, the other requests are as before, and the requester is sent the reason; and
  from any state that holds this rejected row, no handler (approval buttons, reject
  comment, resume, gate, order confirmation) that returns removes or changes it.
\<close>

theorem request_row_lifecycle:
  assumes "requests s request_id = Some r" and "r_status r = ''pending''"
  shows "status_of request_id
           (handle_manager_approval ''approve'' request_id (r_manager_id r)
              user_send_ok edit_ok now s) = Some ''approved'' \<and>
         (user_send_ok \<longrightarrow>
            (r_user_id r, OrderApproved request_id (r_article r) (r_product_name r) (r_shop r))
              \<in> set (outbox (handle_manager_approval ''approve'' request_id (r_manager_id r)
                                 user_send_ok edit_ok now s))) \<and>
         requests (handle_continue_order request_id (r_user_id r) resume_ok
                     (handle_manager_approval ''approve'' request_id (r_manager_id r)
                        user_send_ok edit_ok now s)) =
           (requests s)(request_id := None) \<and>
         (strip t \<noteq> [] \<and>
          map_of (state_get_data (r_manager_id r) s) ''current_reject_request_id'' =
            Some (PStr request_id) \<and>
          request_id \<noteq> [] \<longrightarrow>
          (\<exists>s1 r1.
             handle_manager_reject_comment (r_manager_id r) (Some t) user_send_ok directory now s
               = Inr s1 \<and>
             requests s1 = (requests s)(request_id \<mapsto> r1) \<and>
             r_status r1 = ''rejected'' \<and> r_reject_comment r1 = Some (strip t) \<and>
             (user_send_ok \<longrightarrow>
                (r_user_id r,
                 OrderRejected (rejecting_manager_name directory (r_department r)) (r_article r)
                   (r_shop r) (r_product_name r) (strip t)) \<in> set (outbox s1)) \<and>
             (\<forall>st. requests st request_id = Some r1 \<longrightarrow>
                (\<forall>action rid actor a b now'.
                   requests (handle_manager_approval action rid actor a b now' st) request_id
                     = Some r1) \<and>
                (\<forall>rid user_id ok.
                   requests (handle_continue_order rid user_id ok st) request_id = Some r1) \<and>
                (\<forall>actor text ok dir now' st'.
                   handle_manager_reject_comment actor text ok dir now' st = Inr st' \<longrightarrow>
                   requests st' request_id = Some r1) \<and>
                (\<forall>user_id quantity info dir rid sent reply_ok now' st'.
                   process_quantity_input user_id quantity info dir rid sent reply_ok now' st
                     = Inr st' \<longrightarrow>
                   requests st' request_id = Some r1) \<and>
                (\<forall>user_id stamp ok now'.
                   requests (final_confirmation user_id stamp ok now' st) request_id
                     = Some r1))))"
proof -
  let ?s1 = "handle_manager_approval ''approve'' request_id (r_manager_id r)
               user_send_ok edit_ok now s"
  let ?ra = "r\<lparr>r_status := ''approved'', r_updated_at := now\<rparr>"
  have a1: "requests ?s1 = (requests s)(request_id \<mapsto> ?ra)"
    using assms by (rule approve_sets_approved(1))
  then have a: "status_of request_id ?s1 = Some ''approved''"
    by (simp add: status_of_def)
  have b: "user_send_ok \<longrightarrow>
            (r_user_id r, OrderApproved request_id (r_article r) (r_product_name r) (r_shop r))
              \<in> set (outbox ?s1)"
    using assms by (rule approve_sets_approved(2))
  have "requests ?s1 request_id = Some ?ra" "r_status ?ra = ''approved''"
    using a1 by simp_all
  then have "requests (handle_continue_order request_id (r_user_id ?ra) resume_ok ?s1) =
               (requests ?s1)(request_id := None)"
    by (rule continue_deletes)
  then have c: "requests (handle_continue_order request_id (r_user_id r) resume_ok ?s1) =
                  (requests s)(request_id := None)"
    using a1 by simp
  have d: "strip t \<noteq> [] \<and>
          map_of (state_get_data (r_manager_id r) s) ''current_reject_request_id'' =
            Some (PStr request_id) \<and>
          request_id \<noteq> [] \<longrightarrow>
          (\<exists>s1 r1.
             handle_manager_reject_comment (r_manager_id r) (Some t) user_send_ok directory now s
               = Inr s1 \<and>
             requests s1 = (requests s)(request_id \<mapsto> r1) \<and>
             r_status r1 = ''rejected'' \<and> r_reject_comment r1 = Some (strip t) \<and>
             (user_send_ok \<longrightarrow>
                (r_user_id r,
                 OrderRejected (rejecting_manager_name directory (r_department r)) (r_article r)
                   (r_shop r) (r_product_name r) (strip t)) \<in> set (outbox s1)) \<and>
             (\<forall>st. requests st request_id = Some r1 \<longrightarrow>
                (\<forall>action rid actor a b now'.
                   requests (handle_manager_approval action rid actor a b now' st) request_id
                     = Some r1) \<and>
                (\<forall>rid user_id ok.
                   requests (handle_continue_order rid user_id ok st) request_id = Some r1) \<and>
                (\<forall>actor text ok dir now' st'.
                   handle_manager_reject_comment actor text ok dir now' st = Inr st' \<longrightarrow>
                   requests st' request_id = Some r1) \<and>
                (\<forall>user_id quantity info dir rid sent reply_ok now' st'.
                   process_quantity_input user_id quantity info dir rid sent reply_ok now' st
                     = Inr st' \<longrightarrow>
                   requests st' request_id = Some r1) \<and>
                (\<forall>user_id stamp ok now'.
                   requests (final_confirmation user_id stamp ok now' st) request_id
                     = Some r1)))"
  proof
    assume h: "strip t \<noteq> [] \<and>
          map_of (state_get_data (r_manager_id r) s) ''current_reject_request_id'' =
            Some (PStr request_id) \<and>
          request_id \<noteq> []"
    let ?r1 = "r\<lparr>r_status := ''rejected'', r_updated_at := now,
                 r_reject_comment := Some (strip t)\<rparr>"
    from h assms obtain s1 where s1:
      "handle_manager_reject_comment (r_manager_id r) (Some t) user_send_ok directory now s
         = Inr s1"
      "requests s1 = (requests s)(request_id \<mapsto> ?r1)"
      "user_send_ok \<longrightarrow>
         (r_user_id r,
          OrderRejected (rejecting_manager_name directory (r_department r)) (r_article r)
            (r_shop r) (r_product_name r) (strip t)) \<in> set (outbox s1)"
      using reject_keeps_row [of s request_id r t user_send_ok directory now] by blast
    have rj: "r_status ?r1 = ''rejected''" "r_reject_comment ?r1 = Some (strip t)" by simp_all
    have kept: "\<forall>st. requests st request_id = Some ?r1 \<longrightarrow>
                (\<forall>action rid actor a b now'.
                   requests (handle_manager_approval action rid actor a b now' st) request_id
                     = Some ?r1) \<and>
                (\<forall>rid user_id ok.
                   requests (handle_continue_order rid user_id ok st) request_id = Some ?r1) \<and>
                (\<forall>actor text ok dir now' st'.
                   handle_manager_reject_comment actor text ok dir now' st = Inr st' \<longrightarrow>
                   requests st' request_id = Some ?r1) \<and>
                (\<forall>user_id quantity info dir rid sent reply_ok now' st'.
                   process_quantity_input user_id quantity info dir rid sent reply_ok now' st
                     = Inr st' \<longrightarrow>
                   requests st' request_id = Some ?r1) \<and>
                (\<forall>user_id stamp ok now'.
                   requests (final_confirmation user_id stamp ok now' st) request_id
                     = Some ?r1)"
    proof (intro allI impI)
      fix st :: bot assume st: "requests st request_id = Some ?r1"
      have k1: "\<forall>action rid actor a b now'.
                   requests (handle_manager_approval action rid actor a b now' st) request_id
                     = Some ?r1"
        using rejected_kept_approval [OF st rj(1)] by simp
      have k2: "\<forall>rid user_id ok.
                   requests (handle_continue_order rid user_id ok st) request_id = Some ?r1"
        using rejected_kept_continue [OF st rj(1)] by simp
      have k3: "\<forall>actor text ok dir now' st'.
                   handle_manager_reject_comment actor text ok dir now' st = Inr st' \<longrightarrow>
                   requests st' request_id = Some ?r1"
        using rejected_kept_comment [OF st rj(1)] by simp
      have k4: "\<forall>user_id quantity info dir rid sent reply_ok now' st'.
                   process_quantity_input user_id quantity info dir rid sent reply_ok now' st
                     = Inr st' \<longrightarrow>
                   requests st' request_id = Some ?r1"
        using rejected_kept_gate [OF st rj(1)] by simp
      have k5: "\<forall>user_id stamp ok now'.
                   requests (final_confirmation user_id stamp ok now' st) request_id
                     = Some ?r1"
        using rejected_kept_final [OF st] by simp
      from k1 k2 k3 k4 k5 show "(\<forall>action rid actor a b now'.
                   requests (handle_manager_approval action rid actor a b now' st) request_id
                     = Some ?r1) \<and>
                (\<forall>rid user_id ok.
                   requests (handle_continue_order rid user_id ok st) request_id = Some ?r1) \<and>
                (\<forall>actor text ok dir now' st'.
                   handle_manager_reject_comment actor text ok dir now' st = Inr st' \<longrightarrow>
                   requests st' request_id = Some ?r1) \<and>
                (\<forall>user_id quantity info dir rid sent reply_ok now' st'.
                   process_quantity_input user_id quantity info dir rid sent reply_ok now' st
                     = Inr st' \<longrightarrow>
                   requests st' request_id = Some ?r1) \<and>
                (\<forall>user_id stamp ok now'.
                   requests (final_confirmation user_id stamp ok now' st) request_id
                     = Some ?r1)"
        by (intro conjI)
    qed
    from s1 rj kept show "\<exists>s1 r1.
             handle_manager_reject_comment (r_manager_id r) (Some t) user_send_ok directory now s
               = Inr s1 \<and>
             requests s1 = (requests s)(request_id \<mapsto> r1) \<and>
             r_status r1 = ''rejected'' \<and> r_reject_comment r1 = Some (strip t) \<and>
             (user_send_ok \<longrightarrow>
                (r_user_id r,
                 OrderRejected (rejecting_manager_name directory (r_department r)) (r_article r)
                   (r_shop r) (r_product_name r) (strip t)) \<in> set (outbox s1)) \<and>
             (\<forall>st. requests st request_id = Some r1 \<longrightarrow>
                (\<forall>action rid actor a b now'.
                   requests (handle_manager_approval action rid actor a b now' st) request_id
                     = Some r1) \<and>
                (\<forall>rid user_id ok.
                   requests (handle_continue_order rid user_id ok st) request_id = Some r1) \<and>
                (\<forall>actor text ok dir now' st'.
                   handle_manager_reject_comment actor text ok dir now' st = Inr st' \<longrightarrow>
                   requests st' request_id = Some r1) \<and>
                (\<forall>user_id quantity info dir rid sent reply_ok now' st'.
                   process_quantity_input user_id quantity info dir rid sent reply_ok now' st
                     = Inr st' \<longrightarrow>
                   requests st' request_id = Some r1) \<and>
                (\<forall>user_id stamp ok now'.
                   requests (final_confirmation user_id stamp ok now' st) request_id
                     = Some r1))"
      by blast
  qed
  from a b c d show ?thesis by blast
qed


theorem request_row_lifecycle_witness:
  "requests (awaiting_comment_bot ''pending'') ''r1'' = Some (sample_request ''pending'') \<and>
   r_status (sample_request ''pending'') = ''pending'' \<and>
   requests (handle_continue_order ''r1'' 7 True
               (handle_manager_approval ''approve'' ''r1'' 9 True True 60
                  (awaiting_comment_bot ''pending''))) ''r1'' = None \<and>
   (\<exists>s1 r1.
      handle_manager_reject_comment 9 (Some ''no budget'') True sample_directory 60
        (awaiting_comment_bot ''pending'') = Inr s1 \<and>
      requests s1 ''r1'' = Some r1 \<and> r_status r1 = ''rejected'' \<and>
      r_reject_comment r1 = Some ''no budget'')"
proof -
  let ?s = "awaiting_comment_bot ''pending''"
  let ?r = "sample_request ''pending''"
  have h1: "requests ?s ''r1'' = Some ?r"
    by (simp add: awaiting_comment_bot_def)
  have h2: "r_status ?r = ''pending''" by (simp add: sample_request_def)
  have ids: "r_manager_id ?r = 9" "r_user_id ?r = 7" by (simp_all add: sample_request_def)
  have st: "strip ''no budget'' = ''no budget''" by (simp add: strip_def is_space_def)
  have h3: "strip ''no budget'' \<noteq> [] \<and>
            map_of (state_get_data (r_manager_id ?r) ?s) ''current_reject_request_id'' =
              Some (PStr ''r1'') \<and> ''r1'' \<noteq> []"
    by (simp add: st ids state_get_data_def awaiting_comment_bot_def empty_bot_def)
  note inst = request_row_lifecycle [OF h1 h2, of True True 60 True "''no budget''"
      sample_directory]
  have a: "requests (handle_continue_order ''r1'' (r_user_id ?r) True
               (handle_manager_approval ''approve'' ''r1'' (r_manager_id ?r) True True 60 ?s)) =
             (requests ?s)(''r1'' := None)"
    by (rule inst [THEN conjunct2, THEN conjunct2, THEN conjunct1])
  note rej = inst [THEN conjunct2, THEN conjunct2, THEN conjunct2, THEN mp, OF h3]
  then obtain s1 r1 where b:
    "handle_manager_reject_comment (r_manager_id ?r) (Some ''no budget'') True sample_directory
       60 ?s = Inr s1"
    "requests s1 = (requests ?s)(''r1'' \<mapsto> r1)" "r_status r1 = ''rejected''"
    "r_reject_comment r1 = Some (strip ''no budget'')"
    by (elim exE conjE)
  from a have a': "requests (handle_continue_order ''r1'' 7 True
               (handle_manager_approval ''approve'' ''r1'' 9 True True 60 ?s)) ''r1'' = None"
    by (simp add: ids)
  from b have b': "\<exists>s1 r1.
      handle_manager_reject_comment 9 (Some ''no budget'') True sample_directory 60 ?s = Inr s1 \<and>
      requests s1 ''r1'' = Some r1 \<and> r_status r1 = ''rejected'' \<and>
      r_reject_comment r1 = Some ''no budget''"
    by (auto simp: ids st)
  from h1 h2 a' b' show ?thesis by blast
qed

section \<open>Status transitions of a request\<close>

lemma approved_kept_approval:
  assumes "requests s request_id = Some r" and "r_status r = ''approved''"
  shows "requests (handle_manager_approval action rid actor user_send_ok edit_ok now s)
           request_id = Some r"
  using assms by (auto simp: resume_defs split: option.splits)

lemma approved_kept_comment:
  assumes "requests s request_id = Some r" and "r_status r = ''approved''"
    and "handle_manager_reject_comment actor text user_send_ok directory now s = Inr s'"
  shows "requests s' request_id = Some r"
  using assms by (auto simp: resume_defs split: option.splits pyval.splits if_splits)

lemma approved_continue:
  assumes "requests s request_id = Some r" and "r_status r = ''approved''"
  shows "requests (handle_continue_order rid user_id resume_ok s) request_id = Some r \<or>
         requests (handle_continue_order rid user_id resume_ok s) request_id = None"
  using assms by (auto simp: resume_defs split: option.splits pyval.splits)

lemma create_keeps_existing:
  assumes "store request_id = Some r"
  shows "fst (create_approval_request rid user_id manager_id department article shop
                product_name product_supplier user_data now store) request_id = Some r"
  using assms by (auto simp: create_approval_request_def Let_def split: option.splits)

text \<open>Every operation but the recording of the message handle leaves a decided request
  as it is, or removes it (the resume of an approved one).\<close>

lemma decided_status_kept:
  assumes "requests s request_id = Some r"
    and "r_status r = ''approved'' \<or> r_status r = ''rejected''"
    and "\<forall>rid message_id. operation \<noteq> MessageHandleRecording rid message_id"
  shows "requests (apply_op now s operation) request_id = Some r \<or>
         (requests (apply_op now s operation) request_id = None \<and> r_status r = ''approved'' \<and>
          (\<exists>user_id. operation = Resume request_id user_id))"
proof (cases operation)
  case (GateCreation rid user_id manager_id user_data)
  then show ?thesis using assms(1) by (simp add: create_keeps_existing)
next
  case (MessageHandleRecording rid message_id)
  then show ?thesis using assms(3) by simp
next
  case (ApproveDecision rid manager_id)
  then show ?thesis
    using assms(1,2) approved_kept_approval rejected_kept_approval by auto
next
  case (RejectDecision rid manager_id comment)
  let ?s1 = "handle_manager_approval ''start_reject'' rid manager_id True True now s"
  have 1: "requests ?s1 request_id = Some r"
    using assms(1,2) approved_kept_approval rejected_kept_approval by blast
  show ?thesis
  proof (cases "handle_manager_reject_comment manager_id (Some comment) True no_directory now ?s1")
    case (Inl e)
    then show ?thesis using RejectDecision assms(1) by simp
  next
    case (Inr s')
    then have "requests s' request_id = Some r"
      using 1 assms(2) approved_kept_comment rejected_kept_comment by blast
    then show ?thesis using RejectDecision Inr by simp
  qed
next
  case (Resume rid user_id)
  show ?thesis
  proof (cases "r_status r = ''rejected''")
    case True
    then show ?thesis using Resume assms(1) rejected_kept_continue by simp
  next
    case False
    then have ap: "r_status r = ''approved''" using assms(2) by simp
    show ?thesis
    proof (cases "rid = request_id")
      case True
      then show ?thesis using Resume ap approved_continue [OF assms(1) ap] by auto
    next
      case False
      then have "requests (handle_continue_order rid user_id True s) request_id = Some r"
        using assms(1) by (auto simp: resume_defs split: option.splits pyval.splits)
      then show ?thesis using Resume by simp
    qed
  qed
qed

lemma recording_keeps_pending:
  assumes "requests s request_id = Some r" and "r_status r = ''pending''"
  shows "status_of request_id (apply_op now s (MessageHandleRecording rid message_id)) =
           Some ''pending''"
  using assms by (auto simp: status_of_def update_approval_request_status_def Let_def split: option.splits)

text \<open>
  Claim C1 does not hold on the code. The gate records the message handle with
  \<open>update_approval_request_status(request_id, 'pending', message_id)\<close>, which writes
  the status without looking at the one the row has. When the decision of the approver
  is handled between the creation of the request and this recording (the gate waits for
  the messaging service in between), the approved request is pending again, and can
  then be rejected.
\<close>

theorem status_reset_by_message_handle_recording:
  "status_of ''r1''
     (run_ops 20 empty_bot [GateCreation ''r1'' 7 9 sample_order, ApproveDecision ''r1'' 9]) =
     Some ''approved'' \<and>
   status_of ''r1''
     (run_ops 20 empty_bot
        [GateCreation ''r1'' 7 9 sample_order, ApproveDecision ''r1'' 9,
         MessageHandleRecording ''r1'' 42]) = Some ''pending'' \<and>
   status_of ''r1''
     (run_ops 20 empty_bot
        [GateCreation ''r1'' 7 9 sample_order, ApproveDecision ''r1'' 9,
         MessageHandleRecording ''r1'' 42, RejectDecision ''r1'' 9 ''no'']) = Some ''rejected''"
  by (simp add: run_ops_def status_of_def empty_bot_def resume_defs create_approval_request_def
      strip_def is_space_def no_directory_def rejecting_manager_name_def
      awaiting_reject_comment_def)

end
